theory Spec2Isabelle
  imports Main "HOL-Library.Word"
begin

section \<open>Common types\<close>

text \<open>
  The C++ integer types of \<^verbatim>\<open>local_service.cc\<close>: \<^verbatim>\<open>int\<close> is a 32-bit two's complement
  word, \<^verbatim>\<open>size_t\<close> and the protobuf \<^verbatim>\<open>int64\<close> fields are 64-bit words.
\<close>

type_synonym int32 = "32 word"
type_synonym int64 = "64 word"
type_synonym size_t = "64 word"

text \<open>
  Status codes of \<^verbatim>\<open>tensorflow::Status\<close>. A \<^verbatim>\<open>StatusOr<T>\<close> is \<open>failure + T\<close>.
  Besides a returned status, a call can end the process: a failed \<^verbatim>\<open>CHECK\<close>, a
  \<^verbatim>\<open>std::length_error\<close> thrown by a vector constructor, or an index past the end of
  a vector (undefined behaviour, kept as a value of its own so that it is never
  mistaken for a result).
\<close>

datatype status_code =
    INVALID_ARGUMENT | INTERNAL | NOT_FOUND | ALREADY_EXISTS | ABORTED
  | DEADLINE_EXCEEDED | FAILED_PRECONDITION | UNKNOWN

datatype failure =
    Status status_code string
  | CheckFailed
  | LengthError
  | OutOfBounds

text \<open>A C++ pointer to a constant object: null, or the object pointed to.\<close>

datatype 'a ptr = Null | Ptr 'a

subsection \<open>Decimal output of \<^verbatim>\<open>absl::StrFormat\<close>\<close>

definition digit_char :: "nat \<Rightarrow> char" where
  "digit_char d = ''0123456789'' ! d"

fun StrFormat_u :: "nat \<Rightarrow> string" where
  "StrFormat_u n = (if n < 10 then [digit_char n]
                    else StrFormat_u (n div 10) @ [digit_char (n mod 10)])"

declare StrFormat_u.simps [simp del]

definition StrFormat_d :: "int \<Rightarrow> string" where
  "StrFormat_d i = (if i < 0 then CHR ''-'' # StrFormat_u (nat (- i)) else StrFormat_u (nat i))"

section \<open>The computation protos read by \<^verbatim>\<open>local_service.cc\<close>\<close>

text \<open>
  Only the fields the file reads. An optional message field is the pair of its
  \<^verbatim>\<open>has_\<close> bit and its accessor, which returns the default instance when the bit is
  unset, as protobuf does.
\<close>

record OpMetadata =
  source_file :: string
  source_line :: int32

record HloInstructionProto =
  opcode :: string
  parameter_number :: int64
  has_metadata :: bool
  metadata :: OpMetadata

record HloComputationProto =
  comp_id :: int64
  instructions :: "HloInstructionProto list"

record 'shape ProgramShape =
  parameters :: "'shape list"
  result :: 'shape

record 'shape HloModuleProto =
  computations :: "HloComputationProto list"
  entry_computation_id :: int64
  has_host_program_shape :: bool
  host_program_shape :: "'shape ProgramShape"

text \<open>
  \<^verbatim>\<open>HloOpcodeString(HloOpcode::kParameter)\<close>: the opcode table is not part of the file;
  the name it gives to the parameter opcode is the string below.
\<close>

definition HloOpcodeString_kParameter :: string where
  "HloOpcodeString_kParameter = ''parameter''"

section \<open>ParameterMetadata\<close>

text \<open>
  The inner loop over the instructions of one computation: the first instruction that
  is a parameter with the given number decides, whether it has metadata or not.
  \<open>None\<close> at this level means that the loop ran to its end without returning.
\<close>

fun ParameterMetadata_instrs ::
  "HloInstructionProto list \<Rightarrow> int32 \<Rightarrow> OpMetadata ptr option option" where
  "ParameterMetadata_instrs [] n = None"
| "ParameterMetadata_instrs (instr # rest) n =
     (if opcode instr = HloOpcodeString_kParameter \<and>
         parameter_number instr = (scast n :: int64)
      then (if \<not> has_metadata instr then Some None
            else Some (Some (Ptr (metadata instr))))
      else ParameterMetadata_instrs rest n)"

text \<open>The outer loop over the computations of the module.\<close>

fun ParameterMetadata_comps ::
  "HloComputationProto list \<Rightarrow> int64 \<Rightarrow> int32 \<Rightarrow> OpMetadata ptr option" where
  "ParameterMetadata_comps [] entry n = None"
| "ParameterMetadata_comps (c # rest) entry n =
     (if comp_id c = entry
      then (case ParameterMetadata_instrs (instructions c) n of
              Some r \<Rightarrow> r
            | None \<Rightarrow> ParameterMetadata_comps rest entry n)
      else ParameterMetadata_comps rest entry n)"

definition ParameterMetadata :: "'shape HloModuleProto \<Rightarrow> int32 \<Rightarrow> OpMetadata ptr option" where
  "ParameterMetadata computation n =
     ParameterMetadata_comps (computations computation) (entry_computation_id computation) n"

text \<open>
  The lambda \<^verbatim>\<open>metadata_string\<close> of \<^verbatim>\<open>GetHloModuleConfig\<close>, with its \<^verbatim>\<open>CHECK\<close>.
\<close>

definition metadata_string :: "OpMetadata ptr option \<Rightarrow> failure + string" where
  "metadata_string md =
     (case md of
        None \<Rightarrow> Inr ''''
      | Some Null \<Rightarrow> Inl CheckFailed
      | Some (Ptr m) \<Rightarrow>
          (if source_file m \<noteq> ''''
           then Inr ('' ('' @ source_file m @ '':'' @ StrFormat_d (sint (source_line m)) @ '')'')
           else Inr ''''))"

text \<open>
  The instructions that the two loops visit, in the order they visit them, and the
  test that selects an instruction.
\<close>

definition entry_instructions :: "'shape HloModuleProto \<Rightarrow> HloInstructionProto list" where
  "entry_instructions computation =
     concat (map instructions
       (filter (\<lambda>c. comp_id c = entry_computation_id computation)
          (computations computation)))"

definition is_parameter :: "int32 \<Rightarrow> HloInstructionProto \<Rightarrow> bool" where
  "is_parameter n instr \<longleftrightarrow>
     opcode instr = HloOpcodeString_kParameter \<and> parameter_number instr = (scast n :: int64)"

section \<open>GlobalDataToShapedBuffer\<close>

definition InvalidArgument :: "string \<Rightarrow> failure" where
  "InvalidArgument msg = Status INVALID_ARGUMENT msg"

text \<open>
  \<^verbatim>\<open>std::vector::operator[]\<close> takes a \<^verbatim>\<open>size_t\<close>; past the end it is undefined behaviour.
  No vector of pointers is longer than \<^verbatim>\<open>max_size()\<close>, which is \<^verbatim>\<open>PTRDIFF_MAX\<close> divided by
  the eight bytes of a pointer.
\<close>

definition vector_at :: "'a list \<Rightarrow> size_t \<Rightarrow> failure + 'a" where
  "vector_at v i = (if unat i < length v then Inr (v ! unat i) else Inl OutOfBounds)"

definition vector_max_size :: nat where
  "vector_max_size = (2 ^ 63 - 1) div 8"

text \<open>
  \<^verbatim>\<open>allocation_tracker_.Resolve\<close> is a parameter. In \<^verbatim>\<open>replica_number >= buffers.size()\<close>
  the \<^verbatim>\<open>int\<close> is converted to \<^verbatim>\<open>size_t\<close> (sign extension to 64 bits, read unsigned)
  before the comparison, and again for the index.
\<close>

definition GlobalDataToShapedBuffer ::
  "('handle \<Rightarrow> failure + 'buffer list) \<Rightarrow> 'handle \<Rightarrow> int32 \<Rightarrow> failure + 'buffer" where
  "GlobalDataToShapedBuffer Resolve data replica_number =
     (case Resolve data of
        Inl status \<Rightarrow> Inl status
      | Inr buffers \<Rightarrow>
          if unat (scast replica_number :: size_t) \<ge> length buffers
          then Inl (InvalidArgument
                 (''replica_number '' @ StrFormat_d (sint replica_number) @
                  '' out of range; must be less than num_replicas = '' @
                  StrFormat_u (length buffers) @ ''.''))
          else vector_at buffers (scast replica_number))"

section \<open>GetHloModuleConfig\<close>

text \<open>
  The collaborators of \<^verbatim>\<open>LocalService\<close> that live in other files are parameters, collected
  in one record: the shape utilities, the factory functions of the module configuration,
  the backend's table of stream executors and the three builders inherited from
  \<^verbatim>\<open>Service\<close>. A \<^verbatim>\<open>Status\<close> is \<open>failure option\<close> with \<open>None\<close> for OK. Pointers to objects
  that the file only passes on (stream executors, the allocator, the thread pool) are
  addresses.
\<close>

type_synonym addr = nat

record 'shape ExecutableBuildOptions =
  result_layout :: "'shape ptr"
  device_ordinal :: int32
  num_partitions :: int32
  device_allocator :: addr
  compile_thread_pool :: addr
  run_backend_only :: bool

record CompileOptions =
  co_device_allocator :: addr
  co_thread_pool :: addr

record ('shape, 'eopts, 'config, 'exe, 'aot) service_env =
  ValidateShapeWithOptionalLayout :: "'shape \<Rightarrow> failure option"
  Compatible :: "'shape \<Rightarrow> 'shape \<Rightarrow> bool"
  HumanString :: "'shape \<Rightarrow> string"
  ValidateResultShape :: "'shape \<Rightarrow> 'shape \<Rightarrow> failure option"
  CreateExecutionOptions :: "'shape ExecutableBuildOptions \<Rightarrow> 'shape ProgramShape \<Rightarrow> 'eopts"
  CreateModuleConfig :: "'shape ProgramShape \<Rightarrow> 'shape list \<Rightarrow> 'eopts \<Rightarrow> failure + 'config"
  stream_executor :: "int32 \<Rightarrow> failure + addr"
  BuildExecutable ::
    "'shape HloModuleProto \<Rightarrow> 'config \<Rightarrow> addr \<Rightarrow> CompileOptions \<Rightarrow> bool \<Rightarrow> failure + 'exe"
  BuildExecutables ::
    "'shape HloModuleProto list \<Rightarrow> 'config list \<Rightarrow> addr list list \<Rightarrow> CompileOptions \<Rightarrow> bool
       \<Rightarrow> failure + 'exe list"
  BuildAotResults ::
    "'shape HloModuleProto list \<Rightarrow> 'config list \<Rightarrow> addr list list \<Rightarrow> CompileOptions \<Rightarrow> bool
       \<Rightarrow> failure + 'aot list"

text \<open>
  \<^verbatim>\<open>TF_RET_CHECK(cond)\<close> comes from \<^verbatim>\<open>status_macros.h\<close>: when the condition is false the
  enclosing function returns a status of code \<^verbatim>\<open>INTERNAL\<close>. The text of its message is not
  in the sources; the one below stands for it, and the properties proved speak of the code
  only.
\<close>

definition TF_RET_CHECK_failure :: "string \<Rightarrow> failure" where
  "TF_RET_CHECK_failure cond = Status INTERNAL (''RET_CHECK failure '' @ cond)"

text \<open>
  The loop \<^verbatim>\<open>for (int i = 0; i < argument_layouts.size(); ++i)\<close>. It is entered only when
  the two sizes are equal, so \<open>parameters program_shape ! i\<close> is in range. The span
  holds pointers to shapes; each is the shape it points to. \<open>None\<close> means that the
  loop ran to its end.
\<close>

function check_argument_layouts ::
  "('shape, 'eopts, 'config, 'exe, 'aot) service_env \<Rightarrow> 'shape HloModuleProto \<Rightarrow> 'shape list \<Rightarrow>
     'shape ProgramShape \<Rightarrow> nat \<Rightarrow> failure option" where
  "check_argument_layouts env computation argument_layouts program_shape i =
     (if i < length argument_layouts then
        (let argument_shape = argument_layouts ! i in
         case ValidateShapeWithOptionalLayout env argument_shape of
           Some status \<Rightarrow> Some status
         | None \<Rightarrow>
             if \<not> Compatible env argument_shape (parameters program_shape ! i) then
               (case metadata_string (ParameterMetadata computation (of_nat i)) of
                  Inl abort \<Rightarrow> Some abort
                | Inr md \<Rightarrow>
                    Some (InvalidArgument
                      (''Invalid argument shape for argument '' @ StrFormat_d (int i) @ md @
                       '', expected '' @ HumanString env (parameters program_shape ! i) @
                       '', got '' @ HumanString env argument_shape @ ''.'')))
             else check_argument_layouts env computation argument_layouts program_shape (Suc i))
      else None)"
  by pat_completeness auto
termination
  by (relation "measure (\<lambda>(env, computation, argument_layouts, program_shape, i).
        length argument_layouts - i)") auto

declare check_argument_layouts.simps [simp del]

definition GetHloModuleConfig ::
  "('shape, 'eopts, 'config, 'exe, 'aot) service_env \<Rightarrow> 'shape HloModuleProto \<Rightarrow> 'shape list \<Rightarrow>
     'shape ExecutableBuildOptions \<Rightarrow> failure + 'config" where
  "GetHloModuleConfig env computation argument_layouts build_options =
     (if \<not> has_host_program_shape computation
      then Inl (TF_RET_CHECK_failure ''proto.has_host_program_shape()'')
      else
        let program_shape = host_program_shape computation in
        if length argument_layouts \<noteq> length (parameters program_shape)
        then Inl (InvalidArgument
               (''Invalid number of arguments for computation: expected '' @
                StrFormat_d (int (length (parameters program_shape))) @ '', got '' @
                StrFormat_u (length argument_layouts) @ ''.''))
        else
          case check_argument_layouts env computation argument_layouts program_shape 0 of
            Some status \<Rightarrow> Inl status
          | None \<Rightarrow>
              (case (case result_layout build_options of
                       Null \<Rightarrow> None
                     | Ptr layout \<Rightarrow> ValidateResultShape env layout (result program_shape)) of
                 Some status \<Rightarrow> Inl status
               | None \<Rightarrow>
                   let execution_options = CreateExecutionOptions env build_options program_shape
                   in CreateModuleConfig env program_shape argument_layouts execution_options))"

text \<open>The code of a returned status, when the failure is one.\<close>

definition status_code_of :: "failure + 'a \<Rightarrow> status_code option" where
  "status_code_of r = (case r of Inl (Status code msg) \<Rightarrow> Some code | _ \<Rightarrow> None)"

definition is_InvalidArgument :: "failure \<Rightarrow> bool" where
  "is_InvalidArgument f = (case f of Status INVALID_ARGUMENT msg \<Rightarrow> True | _ \<Rightarrow> False)"

text \<open>
  \<^verbatim>\<open>ShapeUtil::ValidateShapeWithOptionalLayout\<close> is not among the sources. That it rejects
  a shape with a status of code \<^verbatim>\<open>INVALID_ARGUMENT\<close> is a condition on the parameter, asked
  of the argument shapes of the call.
\<close>

definition validation_rejects_with_InvalidArgument ::
  "('shape, 'eopts, 'config, 'exe, 'aot) service_env \<Rightarrow> 'shape list \<Rightarrow> bool" where
  "validation_rejects_with_InvalidArgument env argument_layouts =
     list_all (\<lambda>shape. case ValidateShapeWithOptionalLayout env shape of
                          None \<Rightarrow> True
                        | Some status \<Rightarrow> is_InvalidArgument status)
       argument_layouts"

section \<open>CompileExecutables and CompileAotResults\<close>

text \<open>
  The fill constructor \<^verbatim>\<open>std::vector<T>(n, value)\<close> takes a \<^verbatim>\<open>size_t\<close>: an \<^verbatim>\<open>int\<close> argument
  is converted, and a count above \<^verbatim>\<open>max_size()\<close> throws \<^verbatim>\<open>std::length_error\<close>.
\<close>

definition vector_fill :: "int32 \<Rightarrow> 'a \<Rightarrow> failure + 'a list" where
  "vector_fill n x =
     (if unat (scast n :: size_t) > vector_max_size then Inl LengthError
      else Inr (replicate (unat (scast n :: size_t)) x))"

text \<open>
  What a call hands to a builder. The compile functions return, beside their result,
  the builder calls they made, in order: building an executable is the effect of the
  call, and a call that made none has built nothing.
\<close>

datatype ('shape, 'config) build_call =
    BuildExecutable_call "'shape HloModuleProto" 'config addr CompileOptions bool
  | BuildExecutables_call "'shape HloModuleProto list" "'config list" "addr list list"
      CompileOptions bool
  | BuildAotResults_call "'shape HloModuleProto list" "'config list" "addr list list"
      CompileOptions bool

definition CompileExecutables ::
  "('shape, 'eopts, 'config, 'exe, 'aot) service_env \<Rightarrow> 'shape HloModuleProto \<Rightarrow> 'shape list \<Rightarrow>
     'shape ExecutableBuildOptions \<Rightarrow> (failure + 'exe list) \<times> ('shape, 'config) build_call list" where
  "CompileExecutables env computation argument_layouts build_options =
     (case GetHloModuleConfig env computation argument_layouts build_options of
        Inl status \<Rightarrow> (Inl status, [])
      | Inr module_config \<Rightarrow>
          (case stream_executor env (device_ordinal build_options) of
             Inl status \<Rightarrow> (Inl status, [])
           | Inr executor \<Rightarrow>
               let compile_options =
                     \<lparr>co_device_allocator = device_allocator build_options,
                      co_thread_pool = compile_thread_pool build_options\<rparr>
               in
               if num_partitions build_options = 1 then
                 (case BuildExecutable env computation module_config executor compile_options
                         (run_backend_only build_options) of
                    Inl status \<Rightarrow>
                      (Inl status,
                       [BuildExecutable_call computation module_config executor compile_options
                          (run_backend_only build_options)])
                  | Inr executable \<Rightarrow>
                      (Inr [executable],
                       [BuildExecutable_call computation module_config executor compile_options
                          (run_backend_only build_options)]))
               else
                 (case vector_fill (num_partitions build_options) executor of
                    Inl abort \<Rightarrow> (Inl abort, [])
                  | Inr executors \<Rightarrow>
                      (BuildExecutables env [computation] [module_config] [executors]
                         compile_options (run_backend_only build_options),
                       [BuildExecutables_call [computation] [module_config] [executors]
                          compile_options (run_backend_only build_options)]))))"

definition CompileAotResults ::
  "('shape, 'eopts, 'config, 'exe, 'aot) service_env \<Rightarrow> 'shape HloModuleProto \<Rightarrow> 'shape list \<Rightarrow>
     'shape ExecutableBuildOptions \<Rightarrow> (failure + 'aot list) \<times> ('shape, 'config) build_call list" where
  "CompileAotResults env computation argument_layouts build_options =
     (case GetHloModuleConfig env computation argument_layouts build_options of
        Inl status \<Rightarrow> (Inl status, [])
      | Inr module_config \<Rightarrow>
          (case stream_executor env (device_ordinal build_options) of
             Inl status \<Rightarrow> (Inl status, [])
           | Inr executor \<Rightarrow>
               let compile_options =
                     \<lparr>co_device_allocator = device_allocator build_options,
                      co_thread_pool = compile_thread_pool build_options\<rparr>
               in
               (case vector_fill (num_partitions build_options) executor of
                  Inl abort \<Rightarrow> (Inl abort, [])
                | Inr executors \<Rightarrow>
                    (BuildAotResults env [computation] [module_config] [executors]
                       compile_options (run_backend_only build_options),
                     [BuildAotResults_call [computation] [module_config] [executors]
                        compile_options (run_backend_only build_options)]))))"

section \<open>The coordination service\<close>

text \<open>
  Modelled from the spec: \<^verbatim>\<open>coordination_service.cc\<close> is named by the build manifest but is
  not among the sources, so the service state and the operations \<open>RegisterTask\<close>,
  \<open>Heartbeat\<close> and \<open>BarrierAsync\<close> follow sections 3 and 4.1 of the specification. All
  operations run under one service-wide lock, so each is a function from the state to the
  new state and what it answers. The clock is a parameter of each call, and a call on a
  barrier compares it with the deadline of the instance. The timer that answers the
  parked waiters of a barrier nobody calls again, and the liveness sweep, are events of
  their own and are not part of this fragment.
\<close>

type_synonym task_id = "string \<times> nat"
type_synonym time = nat

datatype registration_status = Unregistered | Registered | Disconnected | TaskError

record Task =
  task_status :: registration_status
  last_heartbeat :: time
  incarnation :: nat

datatype barrier_result = Pending | Passed | FailedTimeout | FailedMismatch

record Barrier =
  expected :: "task_id list"
  arrived :: "task_id list"
  deadline :: time
  result_status :: barrier_result
  waiters :: "task_id list"

record CoordinationService =
  tasks :: "task_id \<rightharpoonup> Task"
  barriers :: "string \<rightharpoonup> Barrier"

text \<open>
  Modelled from the spec: \<open>RegisterTask\<close>. The first call for a task creates its record
  with the incarnation given; a call from an identity that has a record is a restart,
  which increments the incarnation and resets the heartbeat state. The failure
  \<open>AlreadyExists\<close> belongs to two registrations racing and has no place under the lock.
\<close>

definition RegisterTask ::
  "CoordinationService \<Rightarrow> time \<Rightarrow> task_id \<Rightarrow> nat \<Rightarrow> (status_code + nat) \<times> CoordinationService" where
  "RegisterTask s now task inc =
     (case tasks s task of
        None \<Rightarrow>
          (Inr inc,
           s\<lparr>tasks := (tasks s)(task \<mapsto>
                \<lparr>task_status = Registered, last_heartbeat = now, incarnation = inc\<rparr>)\<rparr>)
      | Some t \<Rightarrow>
          (Inr (incarnation t + 1),
           s\<lparr>tasks := (tasks s)(task \<mapsto>
                \<lparr>task_status = Registered, last_heartbeat = now,
                 incarnation = incarnation t + 1\<rparr>)\<rparr>))"

text \<open>
  Modelled from the spec: \<open>Heartbeat\<close> fails with \<open>NotFound\<close> if the task was never
  registered and with \<open>Aborted\<close> if the incarnation does not match the recorded one;
  otherwise it is ok and refreshes the time of the last heartbeat.
\<close>

definition Heartbeat ::
  "CoordinationService \<Rightarrow> time \<Rightarrow> task_id \<Rightarrow> nat \<Rightarrow> (status_code + unit) \<times> CoordinationService" where
  "Heartbeat s now task inc =
     (case tasks s task of
        None \<Rightarrow> (Inl NOT_FOUND, s)
      | Some t \<Rightarrow>
          if inc \<noteq> incarnation t then (Inl ABORTED, s)
          else (Inr (), s\<lparr>tasks := (tasks s)(task \<mapsto> t\<lparr>last_heartbeat := now\<rparr>)\<rparr>))"

text \<open>
  Modelled from the spec: barriers. A response is the result delivered to one waiter of
  one barrier. Resolving a barrier records the result, answers every waiter with it, in
  the order of arrival, and clears the list of waiters.
\<close>

type_synonym response = "task_id \<times> string \<times> barrier_result"

definition resolve_barrier ::
  "CoordinationService \<Rightarrow> string \<Rightarrow> Barrier \<Rightarrow> barrier_result \<Rightarrow> CoordinationService \<times> response list" where
  "resolve_barrier s name b r =
     (s\<lparr>barriers := (barriers s)(name \<mapsto> b\<lparr>result_status := r, waiters := []\<rparr>)\<rparr>,
      map (\<lambda>w. (w, name, r)) (waiters b))"

text \<open>
  Modelled from the spec: the instance a call belongs to. A name with a pending barrier
  names that instance; the first call for a name, and a call that reuses a name after the
  prior instance was resolved, start a fresh one with the caller's participants and the
  deadline \<open>now + timeout\<close>.
\<close>

definition barrier_instance ::
  "CoordinationService \<Rightarrow> time \<Rightarrow> string \<Rightarrow> time \<Rightarrow> task_id list \<Rightarrow> Barrier" where
  "barrier_instance s now name timeout participating_tasks =
     (let fresh = \<lparr>expected = participating_tasks, arrived = [], deadline = now + timeout,
                   result_status = Pending, waiters = []\<rparr>
      in case barriers s name of
           None \<Rightarrow> fresh
         | Some b \<Rightarrow> if result_status b = Pending then b else fresh)"

text \<open>
  Modelled from the spec: \<open>BarrierAsync\<close>, with the calling task as an argument. A call
  that comes when the deadline of the instance has elapsed is a late arrival: the barrier
  resolves failed-timeout for all waiters, the caller among them, and a call at the exact
  deadline counts as late (ties favour the timeout). Before the deadline, a call whose
  participant set differs from that of the instance resolves the barrier failed-mismatch
  for all waiters, the caller among them. Otherwise the arrival is registered; the last
  expected arrival resolves the barrier passed and every waiter is answered; any other
  call is parked and nobody is answered.
\<close>

definition BarrierAsync ::
  "CoordinationService \<Rightarrow> time \<Rightarrow> string \<Rightarrow> time \<Rightarrow> task_id list \<Rightarrow> task_id \<Rightarrow>
     CoordinationService \<times> response list" where
  "BarrierAsync s now name timeout participating_tasks caller =
     (let b = barrier_instance s now name timeout participating_tasks;
          b' = b\<lparr>arrived := arrived b @ [caller], waiters := waiters b @ [caller]\<rparr>
      in if deadline b \<le> now
         then resolve_barrier s name (b\<lparr>waiters := waiters b @ [caller]\<rparr>) FailedTimeout
         else if set participating_tasks \<noteq> set (expected b)
         then resolve_barrier s name (b\<lparr>waiters := waiters b @ [caller]\<rparr>) FailedMismatch
         else if set (expected b') \<subseteq> set (arrived b')
         then resolve_barrier s name b' Passed
         else (s\<lparr>barriers := (barriers s)(name \<mapsto> b')\<rparr>, []))"

text \<open>
  A sequence of calls on one barrier name, each with its time, timeout, participant list
  and calling task, with the responses that each call set off.
\<close>

fun barrier_calls ::
  "CoordinationService \<Rightarrow> string \<Rightarrow> (time \<times> time \<times> task_id list \<times> task_id) list \<Rightarrow>
     CoordinationService \<times> response list list" where
  "barrier_calls s name [] = (s, [])"
| "barrier_calls s name ((now, timeout, participating_tasks, caller) # rest) =
     (let (s', out) = BarrierAsync s now name timeout participating_tasks caller;
          (s'', outs) = barrier_calls s' name rest
      in (s'', out # outs))"

definition call_time :: "time \<times> time \<times> task_id list \<times> task_id \<Rightarrow> time" where
  "call_time c = fst c"

definition call_timeout :: "time \<times> time \<times> task_id list \<times> task_id \<Rightarrow> time" where
  "call_timeout c = fst (snd c)"

definition call_participants :: "time \<times> time \<times> task_id list \<times> task_id \<Rightarrow> task_id list" where
  "call_participants c = fst (snd (snd c))"

definition call_task :: "time \<times> time \<times> task_id list \<times> task_id \<Rightarrow> task_id" where
  "call_task c = snd (snd (snd c))"

text \<open>Whether a barrier of that name is waiting for arrivals.\<close>

definition barrier_pending :: "CoordinationService \<Rightarrow> string \<Rightarrow> bool" where
  "barrier_pending s name =
     (case barriers s name of None \<Rightarrow> False | Some b \<Rightarrow> result_status b = Pending)"

section \<open>Example inputs\<close>

definition example_instrs :: "HloInstructionProto list" where
  "example_instrs =
     [\<lparr>opcode = ''parameter'', parameter_number = 0, has_metadata = True,
        metadata = \<lparr>source_file = ''model.py'', source_line = 12\<rparr>\<rparr>,
      \<lparr>opcode = ''parameter'', parameter_number = 1, has_metadata = False,
        metadata = \<lparr>source_file = '''', source_line = 0\<rparr>\<rparr>,
      \<lparr>opcode = ''add'', parameter_number = 2, has_metadata = True,
        metadata = \<lparr>source_file = ''model.py'', source_line = 13\<rparr>\<rparr>]"

definition example_computation :: "nat HloModuleProto" where
  "example_computation =
     \<lparr>computations = [\<lparr>comp_id = 7, instructions = []\<rparr>, \<lparr>comp_id = 5, instructions = example_instrs\<rparr>],
      entry_computation_id = 5,
      has_host_program_shape = True,
      host_program_shape = \<lparr>parameters = [3, 4], result = 9\<rparr>\<rparr>"

definition example_Resolve :: "nat \<Rightarrow> failure + nat list" where
  "example_Resolve handle = Inr [10, 20]"

definition empty_computation :: "nat HloModuleProto" where
  "empty_computation =
     \<lparr>computations = [], entry_computation_id = 0, has_host_program_shape = False,
      host_program_shape = \<lparr>parameters = [], result = 0\<rparr>\<rparr>"

definition example_env :: "(nat, unit, nat, nat, nat) service_env" where
  "example_env =
     \<lparr>ValidateShapeWithOptionalLayout =
        (\<lambda>shape. if shape = 0 then Some (InvalidArgument ''shape has no element type'') else None),
      Compatible = (\<lambda>lhs rhs. lhs = rhs),
      HumanString = StrFormat_u,
      ValidateResultShape =
        (\<lambda>layout shape. if layout = shape then None
                        else Some (InvalidArgument ''result layout does not match'')),
      CreateExecutionOptions = (\<lambda>build_options program_shape. ()),
      CreateModuleConfig = (\<lambda>program_shape layouts execution_options. Inr (length layouts)),
      stream_executor =
        (\<lambda>ordinal. if ordinal = 0 then Inr 4096 else Inl (Status NOT_FOUND ''no such device'')),
      BuildExecutable = (\<lambda>proto config executor options backend_only. Inr (executor + 1)),
      BuildExecutables =
        (\<lambda>protos configs executors options backend_only. Inr (map length executors)),
      BuildAotResults =
        (\<lambda>protos configs executors options backend_only. Inr (map length executors))\<rparr>"

definition example_options :: "int32 \<Rightarrow> nat ExecutableBuildOptions" where
  "example_options partitions =
     \<lparr>result_layout = Null, device_ordinal = 0, num_partitions = partitions,
      device_allocator = 0, compile_thread_pool = 0, run_backend_only = False\<rparr>"

definition worker :: "nat \<Rightarrow> task_id" where
  "worker n = (''worker'', n)"

definition empty_service :: CoordinationService where
  "empty_service = \<lparr>tasks = Map.empty, barriers = Map.empty\<rparr>"

definition example_calls :: "(time \<times> time \<times> task_id list \<times> task_id) list" where
  "example_calls =
     [(1, 10, [worker 0, worker 1, worker 2], worker 1),
      (2, 10, [worker 0, worker 1, worker 2], worker 0),
      (3, 10, [worker 2, worker 1, worker 0], worker 2)]"

definition late_calls :: "(time \<times> time \<times> task_id list \<times> task_id) list" where
  "late_calls =
     [(1, 10, [worker 0, worker 1, worker 2], worker 1),
      (2, 10, [worker 0, worker 1, worker 2], worker 0),
      (50, 10, [worker 0, worker 1, worker 2], worker 2)]"

definition waiting_service :: CoordinationService where
  "waiting_service =
     \<lparr>tasks = Map.empty,
      barriers = [''sync'' \<mapsto>
        \<lparr>expected = [worker 0, worker 1], arrived = [worker 0], deadline = 11,
         result_status = Pending, waiters = [worker 0]\<rparr>]\<rparr>"

definition registered_service :: CoordinationService where
  "registered_service =
     \<lparr>tasks = [worker 0 \<mapsto> \<lparr>task_status = Registered, last_heartbeat = 3, incarnation = 5\<rparr>],
      barriers = Map.empty\<rparr>"

section \<open>Properties of ParameterMetadata\<close>

lemma find_append_cases:
  "find P (xs @ ys) = (case find P xs of None \<Rightarrow> find P ys | Some x \<Rightarrow> Some x)"
  by (induction xs) simp_all

lemma ParameterMetadata_instrs_find:
  "ParameterMetadata_instrs is n =
     (case find (is_parameter n) is of
        None \<Rightarrow> None
      | Some instr \<Rightarrow> Some (if has_metadata instr then Some (Ptr (metadata instr)) else None))"
  by (induction "is") (simp_all add: is_parameter_def)

lemma ParameterMetadata_comps_find:
  "ParameterMetadata_comps cs entry n =
     (case find (is_parameter n)
             (concat (map instructions (filter (\<lambda>c. comp_id c = entry) cs))) of
        None \<Rightarrow> None
      | Some instr \<Rightarrow> (if has_metadata instr then Some (Ptr (metadata instr)) else None))"
proof (induction cs)
  case Nil
  show ?case by simp
next
  case (Cons c cs)
  show ?case
  proof (cases "comp_id c = entry")
    case False
    with Cons show ?thesis by simp
  next
    case True
    show ?thesis
    proof (cases "find (is_parameter n) (instructions c)")
      case None
      with True Cons show ?thesis
        by (simp add: ParameterMetadata_instrs_find find_append_cases)
    next
      case (Some instr)
      with True show ?thesis
        by (simp add: ParameterMetadata_instrs_find find_append_cases)
    qed
  qed
qed

lemma ParameterMetadata_find:
  "ParameterMetadata computation n =
     (case find (is_parameter n) (entry_instructions computation) of
        None \<Rightarrow> None
      | Some instr \<Rightarrow> (if has_metadata instr then Some (Ptr (metadata instr)) else None))"
  by (simp add: ParameterMetadata_def entry_instructions_def ParameterMetadata_comps_find)

text \<open>
  C8. \<open>ParameterMetadata\<close> returns \<open>nullopt\<close> when no instruction of the entry
  computation is a parameter with the given number, and when the first such instruction
  (the one the loop stops at) has no metadata. A value it returns never holds the null
  pointer, so the lambda \<open>metadata_string\<close> of \<open>GetHloModuleConfig\<close> always produces
  a string and its \<open>CHECK\<close> does not fire.
\<close>

theorem ParameterMetadata_nullopt_or_nonnull:
  "((\<forall>instr \<in> set (entry_instructions computation). \<not> is_parameter n instr)
      \<longrightarrow> ParameterMetadata computation n = None)
   \<and> (\<forall>instr. find (is_parameter n) (entry_instructions computation) = Some instr
          \<and> \<not> has_metadata instr \<longrightarrow> ParameterMetadata computation n = None)
   \<and> (\<forall>p. ParameterMetadata computation n = Some p \<longrightarrow> p \<noteq> Null)
   \<and> metadata_string (ParameterMetadata computation n) \<noteq> Inl CheckFailed
   \<and> (\<exists>s. metadata_string (ParameterMetadata computation n) = Inr s)"
proof (cases "find (is_parameter n) (entry_instructions computation)")
  case None
  then have "ParameterMetadata computation n = None"
    by (simp add: ParameterMetadata_find)
  then show ?thesis
    by (simp add: None metadata_string_def)
next
  case (Some instr)
  then have pm: "ParameterMetadata computation n =
      (if has_metadata instr then Some (Ptr (metadata instr)) else None)"
    by (simp add: ParameterMetadata_find)
  from Some have "instr \<in> set (entry_instructions computation)" "is_parameter n instr"
    by (auto simp: find_Some_iff)
  then have ex: "\<not> (\<forall>i \<in> set (entry_instructions computation). \<not> is_parameter n i)"
    by blast
  show ?thesis
    using ex by (simp add: pm Some metadata_string_def)
qed

lemma entry_instructions_example: "entry_instructions example_computation = example_instrs"
  by (simp add: entry_instructions_def example_computation_def)

theorem ParameterMetadata_nullopt_or_nonnull_witness:
  "list_all (\<lambda>instr. \<not> is_parameter 2 instr) (entry_instructions example_computation)
   \<and> ParameterMetadata example_computation 2 = None
   \<and> find (is_parameter 1) (entry_instructions example_computation) = Some (example_instrs ! 1)
   \<and> \<not> has_metadata (example_instrs ! 1)
   \<and> ParameterMetadata example_computation 1 = None
   \<and> ParameterMetadata example_computation 0
        = Some (Ptr \<lparr>source_file = ''model.py'', source_line = 12\<rparr>)
   \<and> Ptr \<lparr>source_file = ''model.py'', source_line = 12\<rparr> \<noteq> (Null :: OpMetadata ptr)
   \<and> metadata_string (ParameterMetadata example_computation 0) = Inr '' (model.py:12)''"
proof -
  have no2: "\<forall>instr \<in> set (entry_instructions example_computation). \<not> is_parameter 2 instr"
    by (simp add: entry_instructions_example example_instrs_def is_parameter_def HloOpcodeString_kParameter_def)
  have f1: "find (is_parameter 1) (entry_instructions example_computation) = Some (example_instrs ! 1)"
    by (simp add: entry_instructions_example example_instrs_def is_parameter_def HloOpcodeString_kParameter_def)
  have h1: "\<not> has_metadata (example_instrs ! 1)"
    by (simp add: example_instrs_def)
  have p0: "ParameterMetadata example_computation 0
        = Some (Ptr \<lparr>source_file = ''model.py'', source_line = 12\<rparr>)"
    by (simp add: ParameterMetadata_def example_computation_def example_instrs_def HloOpcodeString_kParameter_def)
  have ms: "metadata_string (Some (Ptr \<lparr>source_file = ''model.py'', source_line = 12\<rparr>)) = Inr '' (model.py:12)''"
    by (simp add: metadata_string_def StrFormat_d_def StrFormat_u.simps digit_char_def)
  from ParameterMetadata_nullopt_or_nonnull [of example_computation 2] no2
  have a: "ParameterMetadata example_computation 2 = None" by blast
  from ParameterMetadata_nullopt_or_nonnull [of example_computation 1] f1 h1
  have b: "ParameterMetadata example_computation 1 = None" by blast
  from ParameterMetadata_nullopt_or_nonnull [of example_computation 0] p0
  have c: "Ptr \<lparr>source_file = ''model.py'', source_line = 12\<rparr> \<noteq> (Null :: OpMetadata ptr)" by blast
  have l2: "list_all (\<lambda>instr. \<not> is_parameter 2 instr) (entry_instructions example_computation)"
    using no2 by (simp add: list_all_iff)
  show ?thesis using l2 a f1 h1 b p0 c ms by simp
qed

section \<open>Conversion of \<^verbatim>\<open>int\<close> to \<^verbatim>\<open>size_t\<close>\<close>

lemma uint_scast_int32: "uint (scast (n::int32) :: size_t) = sint n mod 2 ^ 64"
proof -
  have "uint (scast n :: size_t) = uint (word_of_int (sint n) :: size_t)"
    by (simp only: scast_eq)
  also have "\<dots> = sint n mod 2 ^ LENGTH(64)"
    by (rule uint_word_of_int)
  finally show ?thesis by simp
qed

lemma unat_scast_int32: "unat (scast (n::int32) :: size_t) = nat (sint n mod 2 ^ 64)"
  by (simp only: unat_eq_nat_uint uint_scast_int32)

lemma sint_int32_bounds: "- (2 ^ 31) \<le> sint (n::int32) \<and> sint n < 2 ^ 31"
  using sint_ge [of n] sint_lt [of n] by simp

lemma unat_scast_nonneg:
  assumes "0 \<le> sint (n::int32)"
  shows "unat (scast n :: size_t) = nat (sint n)"
proof -
  have "sint n < 2 ^ 64" using sint_int32_bounds [of n] by simp
  with assms have "sint n mod 2 ^ 64 = sint n" by simp
  then show ?thesis by (simp only: unat_scast_int32)
qed

lemma unat_scast_neg:
  assumes "sint (n::int32) < 0"
  shows "unat (scast n :: size_t) = nat (2 ^ 64 + sint n)"
proof -
  have b: "- (2 ^ 31) \<le> sint n" using sint_int32_bounds [of n] by simp
  have "(sint n + 2 ^ 64) mod 2 ^ 64 = sint n + 2 ^ 64"
    using assms b by (intro mod_pos_pos_trivial) simp_all
  then have "sint n mod 2 ^ 64 = sint n + 2 ^ 64" by simp
  then show ?thesis by (simp only: unat_scast_int32 add.commute)
qed

lemma unat_minus_one_size_t: "unat (- 1 :: size_t) = 2 ^ 64 - 1"
  using unat_scast_neg [of "- 1"] by simp

section \<open>Properties of GetHloModuleConfig\<close>

lemma metadata_string_ParameterMetadata:
  "\<exists>md. metadata_string (ParameterMetadata computation n) = Inr md"
  by (simp add: ParameterMetadata_find metadata_string_def split: option.split)

lemma check_argument_layouts_None_iff:
  "check_argument_layouts env computation args ps i = None \<longleftrightarrow>
     (\<forall>j. i \<le> j \<and> j < length args \<longrightarrow>
        ValidateShapeWithOptionalLayout env (args ! j) = None \<and>
        Compatible env (args ! j) (parameters ps ! j))"
proof (induction env computation args ps i rule: check_argument_layouts.induct)
  case (1 env computation args ps i)
  show ?case
  proof (cases "i < length args")
    case False
    then show ?thesis by (auto simp: check_argument_layouts.simps [of _ _ _ _ i])
  next
    case True
    show ?thesis
    proof (cases "ValidateShapeWithOptionalLayout env (args ! i) = None \<and>
                  Compatible env (args ! i) (parameters ps ! i)")
      case False
      obtain md where md: "metadata_string (ParameterMetadata computation (of_nat i)) = Inr md"
        using metadata_string_ParameterMetadata by blast
      have "check_argument_layouts env computation args ps i \<noteq> None"
        using False True md
        by (auto simp: check_argument_layouts.simps [of _ _ _ _ i] Let_def split: option.splits)
      moreover have "\<not> (\<forall>j. i \<le> j \<and> j < length args \<longrightarrow>
        ValidateShapeWithOptionalLayout env (args ! j) = None \<and>
        Compatible env (args ! j) (parameters ps ! j))"
        using False True by blast
      ultimately show ?thesis by blast
    next
      case ok: True
      then have step: "check_argument_layouts env computation args ps i =
          check_argument_layouts env computation args ps (Suc i)"
        using True by (simp add: check_argument_layouts.simps [of _ _ _ _ i])
      have ih: "check_argument_layouts env computation args ps (Suc i) = None \<longleftrightarrow>
         (\<forall>j. Suc i \<le> j \<and> j < length args \<longrightarrow>
            ValidateShapeWithOptionalLayout env (args ! j) = None \<and>
            Compatible env (args ! j) (parameters ps ! j))"
        using "1.IH" [OF True refl] ok by simp
      have "(\<forall>j. i \<le> j \<and> j < length args \<longrightarrow>
            ValidateShapeWithOptionalLayout env (args ! j) = None \<and>
            Compatible env (args ! j) (parameters ps ! j)) \<longleftrightarrow>
          (\<forall>j. Suc i \<le> j \<and> j < length args \<longrightarrow>
            ValidateShapeWithOptionalLayout env (args ! j) = None \<and>
            Compatible env (args ! j) (parameters ps ! j))"
        using ok by (metis Suc_leI le_neq_implies_less Suc_leD)
      with step ih show ?thesis by simp
    qed
  qed
qed


lemma check_argument_layouts_first_incompatible:
  assumes "i \<le> k" and "k < length args"
    and "\<forall>j. i \<le> j \<and> j \<le> k \<longrightarrow> ValidateShapeWithOptionalLayout env (args ! j) = None"
    and "\<forall>j. i \<le> j \<and> j < k \<longrightarrow> Compatible env (args ! j) (parameters ps ! j)"
    and "\<not> Compatible env (args ! k) (parameters ps ! k)"
  shows "\<exists>md. metadata_string (ParameterMetadata computation (of_nat k)) = Inr md \<and>
           check_argument_layouts env computation args ps i =
             Some (InvalidArgument
                (''Invalid argument shape for argument '' @ StrFormat_d (int k) @ md @
                 '', expected '' @ HumanString env (parameters ps ! k) @
                 '', got '' @ HumanString env (args ! k) @ ''.''))"
  using assms
proof (induction env computation args ps i rule: check_argument_layouts.induct)
  case (1 env computation args ps i)
  from "1.prems" have lt: "i < length args" by simp
  from "1.prems" have v: "ValidateShapeWithOptionalLayout env (args ! i) = None" by simp
  show ?case
  proof (cases "i = k")
    case True
    obtain md where md: "metadata_string (ParameterMetadata computation (of_nat k)) = Inr md"
      using metadata_string_ParameterMetadata by blast
    show ?thesis
      using True lt v md "1.prems"(5)
      by (simp add: check_argument_layouts.simps [of _ _ _ _ k])
  next
    case False
    with "1.prems" have less: "i < k" by simp
    with "1.prems" have c: "Compatible env (args ! i) (parameters ps ! i)" by simp
    have step: "check_argument_layouts env computation args ps i =
          check_argument_layouts env computation args ps (Suc i)"
      using lt v c by (simp add: check_argument_layouts.simps [of _ _ _ _ i])
    have "\<exists>md. metadata_string (ParameterMetadata computation (of_nat k)) = Inr md \<and>
           check_argument_layouts env computation args ps (Suc i) =
             Some (InvalidArgument
                (''Invalid argument shape for argument '' @ StrFormat_d (int k) @ md @
                 '', expected '' @ HumanString env (parameters ps ! k) @
                 '', got '' @ HumanString env (args ! k) @ ''.''))"
      using "1.IH" [OF lt refl v] c less "1.prems" by simp
    with step show ?thesis by simp
  qed
qed

lemma GetHloModuleConfig_wrong_count:
  assumes "has_host_program_shape computation"
    and "length args \<noteq> length (parameters (host_program_shape computation))"
  shows "GetHloModuleConfig env computation args opts =
           Inl (InvalidArgument
               (''Invalid number of arguments for computation: expected '' @
                StrFormat_d (int (length (parameters (host_program_shape computation)))) @
                '', got '' @ StrFormat_u (length args) @ ''.''))"
  using assms by (simp add: GetHloModuleConfig_def Let_def)

lemma GetHloModuleConfig_incompatible:
  assumes "has_host_program_shape computation"
    and "length args = length (parameters (host_program_shape computation))"
    and "k < length args"
    and "\<forall>j \<le> k. ValidateShapeWithOptionalLayout env (args ! j) = None"
    and "\<forall>j < k. Compatible env (args ! j) (parameters (host_program_shape computation) ! j)"
    and "\<not> Compatible env (args ! k) (parameters (host_program_shape computation) ! k)"
  shows "\<exists>md. metadata_string (ParameterMetadata computation (of_nat k)) = Inr md \<and>
           GetHloModuleConfig env computation args opts =
             Inl (InvalidArgument
                (''Invalid argument shape for argument '' @ StrFormat_d (int k) @ md @
                 '', expected '' @
                 HumanString env (parameters (host_program_shape computation) ! k) @
                 '', got '' @ HumanString env (args ! k) @ ''.''))"
proof -
  from check_argument_layouts_first_incompatible
         [of 0 k args env "host_program_shape computation" computation] assms
  obtain md where md: "metadata_string (ParameterMetadata computation (of_nat k)) = Inr md"
    and r: "check_argument_layouts env computation args (host_program_shape computation) 0 =
             Some (InvalidArgument
                (''Invalid argument shape for argument '' @ StrFormat_d (int k) @ md @
                 '', expected '' @
                 HumanString env (parameters (host_program_shape computation) ! k) @
                 '', got '' @ HumanString env (args ! k) @ ''.''))"
    by auto
  show ?thesis using md r assms(1,2) by (simp add: GetHloModuleConfig_def Let_def)
qed

lemma GetHloModuleConfig_success:
  assumes "GetHloModuleConfig env computation args opts = Inr config"
  shows "has_host_program_shape computation \<and>
         length args = length (parameters (host_program_shape computation)) \<and>
         (\<forall>i < length args.
            ValidateShapeWithOptionalLayout env (args ! i) = None \<and>
            Compatible env (args ! i) (parameters (host_program_shape computation) ! i))"
proof -
  have a: "has_host_program_shape computation"
    using assms by (auto simp: GetHloModuleConfig_def split: if_splits)
  have b: "length args = length (parameters (host_program_shape computation))"
    using assms a by (auto simp: GetHloModuleConfig_def Let_def split: if_splits)
  have "check_argument_layouts env computation args (host_program_shape computation) 0 = None"
    using assms a b by (auto simp: GetHloModuleConfig_def Let_def split: option.splits)
  then show ?thesis using a b by (simp add: check_argument_layouts_None_iff)
qed

lemma check_argument_layouts_Some:
  "check_argument_layouts env computation args ps i = Some status \<Longrightarrow>
     (\<exists>msg. status = InvalidArgument msg) \<or>
     (\<exists>j < length args. ValidateShapeWithOptionalLayout env (args ! j) = Some status)"
proof (induction env computation args ps i rule: check_argument_layouts.induct)
  case (1 env computation args ps i)
  obtain md where md: "metadata_string (ParameterMetadata computation (of_nat i)) = Inr md"
    using metadata_string_ParameterMetadata by blast
  show ?case
  proof (cases "i < length args")
    case False
    with "1.prems" show ?thesis
      by (simp add: check_argument_layouts.simps [of _ _ _ _ i])
  next
    case True
    show ?thesis
    proof (cases "ValidateShapeWithOptionalLayout env (args ! i)")
      case (Some st)
      with True "1.prems" have "status = st"
        by (simp add: check_argument_layouts.simps [of _ _ _ _ i])
      with Some True show ?thesis by blast
    next
      case None
      show ?thesis
      proof (cases "Compatible env (args ! i) (parameters ps ! i)")
        case False
        with None True md "1.prems" show ?thesis
          by (auto simp: check_argument_layouts.simps [of _ _ _ _ i])
      next
        case c: True
        with None True "1.prems"
        have "check_argument_layouts env computation args ps (Suc i) = Some status"
          by (simp add: check_argument_layouts.simps [of _ _ _ _ i])
        with "1.IH" [OF True refl None] c show ?thesis by simp
      qed
    qed
  qed
qed

lemma GetHloModuleConfig_rejects_status:
  assumes "has_host_program_shape computation"
    and "length args \<noteq> length (parameters (host_program_shape computation)) \<or>
         (\<exists>i < length args.
            \<not> Compatible env (args ! i) (parameters (host_program_shape computation) ! i))"
  shows "\<exists>status. GetHloModuleConfig env computation args opts = Inl status \<and>
           ((\<exists>msg. status = InvalidArgument msg) \<or>
            (\<exists>j < length args. ValidateShapeWithOptionalLayout env (args ! j) = Some status))"
proof (cases "length args = length (parameters (host_program_shape computation))")
  case False
  with assms(1) show ?thesis
    using GetHloModuleConfig_wrong_count [of computation args env opts] by blast
next
  case True
  with assms(2) obtain i where "i < length args"
     "\<not> Compatible env (args ! i) (parameters (host_program_shape computation) ! i)"
    by blast
  then have "check_argument_layouts env computation args (host_program_shape computation) 0 \<noteq> None"
    by (auto simp: check_argument_layouts_None_iff)
  then obtain status where
    st: "check_argument_layouts env computation args (host_program_shape computation) 0 = Some status"
    by blast
  from check_argument_layouts_Some [OF st]
  have "(\<exists>msg. status = InvalidArgument msg) \<or>
        (\<exists>j < length args. ValidateShapeWithOptionalLayout env (args ! j) = Some status)" .
  moreover have "GetHloModuleConfig env computation args opts = Inl status"
    using st True assms(1) by (simp add: GetHloModuleConfig_def Let_def)
  ultimately show ?thesis by blast
qed

lemma CompileExecutables_config_error:
  "GetHloModuleConfig env computation args opts = Inl status \<Longrightarrow>
     CompileExecutables env computation args opts = (Inl status, [])"
  by (simp add: CompileExecutables_def)

lemma CompileAotResults_config_error:
  "GetHloModuleConfig env computation args opts = Inl status \<Longrightarrow>
     CompileAotResults env computation args opts = (Inl status, [])"
  by (simp add: CompileAotResults_def)

lemma CompileExecutables_success_config:
  "fst (CompileExecutables env computation args opts) = Inr exes \<Longrightarrow>
     \<exists>config. GetHloModuleConfig env computation args opts = Inr config"
  by (cases "GetHloModuleConfig env computation args opts") (simp_all add: CompileExecutables_def)

lemma CompileAotResults_success_config:
  "fst (CompileAotResults env computation args opts) = Inr aots \<Longrightarrow>
     \<exists>config. GetHloModuleConfig env computation args opts = Inr config"
  by (cases "GetHloModuleConfig env computation args opts") (simp_all add: CompileAotResults_def)

lemma is_InvalidArgument_msg:
  "is_InvalidArgument f \<Longrightarrow> \<exists>msg. f = InvalidArgument msg"
  by (cases f; simp add: is_InvalidArgument_def InvalidArgument_def split: status_code.splits)

text \<open>
  C1 (amended). On a computation whose proto has a host program shape, when the number
  of argument layouts differs from the declared parameter count, or some argument shape
  is incompatible with its parameter shape, \<open>CompileExecutables\<close> and
  \<open>CompileAotResults\<close> return an \<open>InvalidArgument\<close> status and call no builder, given
  that \<open>ValidateShapeWithOptionalLayout\<close> rejects with \<open>InvalidArgument\<close>. Without a host
  program shape the \<open>TF_RET_CHECK\<close> fails first: the status is \<open>INTERNAL\<close>, and again no
  builder is called. A call that returns a result had a host program shape, the right
  number of arguments, and every argument valid and compatible. The status is the
  \<open>InvalidArgument\<close> for the number of arguments when the counts differ, and the one that
  names argument \<open>k\<close> when the counts agree, \<open>k\<close> is the first incompatible argument and
  the arguments up to \<open>k\<close> pass the validation.
\<close>

theorem compile_rejects_invalid_arguments:
  "(validation_rejects_with_InvalidArgument env args \<and>
    has_host_program_shape computation \<and>
      (length args \<noteq> length (parameters (host_program_shape computation)) \<or>
       (\<exists>i < length args.
          \<not> Compatible env (args ! i) (parameters (host_program_shape computation) ! i)))
    \<longrightarrow> (\<exists>msg.
           CompileExecutables env computation args opts = (Inl (InvalidArgument msg), []) \<and>
           CompileAotResults env computation args opts = (Inl (InvalidArgument msg), [])))
   \<and> (\<not> has_host_program_shape computation
    \<longrightarrow> (\<exists>msg.
           CompileExecutables env computation args opts = (Inl (Status INTERNAL msg), []) \<and>
           CompileAotResults env computation args opts = (Inl (Status INTERNAL msg), [])))
   \<and> ((\<exists>exes. fst (CompileExecutables env computation args opts) = Inr exes) \<or>
       (\<exists>aots. fst (CompileAotResults env computation args opts) = Inr aots)
    \<longrightarrow> has_host_program_shape computation \<and>
        length args = length (parameters (host_program_shape computation)) \<and>
        (\<forall>i < length args.
           ValidateShapeWithOptionalLayout env (args ! i) = None \<and>
           Compatible env (args ! i) (parameters (host_program_shape computation) ! i)))
   \<and> (has_host_program_shape computation \<and>
        length args \<noteq> length (parameters (host_program_shape computation))
    \<longrightarrow> CompileExecutables env computation args opts =
          (Inl (InvalidArgument
             (''Invalid number of arguments for computation: expected '' @
              StrFormat_d (int (length (parameters (host_program_shape computation)))) @
              '', got '' @ StrFormat_u (length args) @ ''.'')), []) \<and>
        CompileAotResults env computation args opts =
          (Inl (InvalidArgument
             (''Invalid number of arguments for computation: expected '' @
              StrFormat_d (int (length (parameters (host_program_shape computation)))) @
              '', got '' @ StrFormat_u (length args) @ ''.'')), []))
   \<and> (has_host_program_shape computation \<and>
        length args = length (parameters (host_program_shape computation)) \<and>
        k < length args \<and>
        (\<forall>j \<le> k. ValidateShapeWithOptionalLayout env (args ! j) = None) \<and>
        (\<forall>j < k. Compatible env (args ! j) (parameters (host_program_shape computation) ! j)) \<and>
        \<not> Compatible env (args ! k) (parameters (host_program_shape computation) ! k)
    \<longrightarrow> (\<exists>md. metadata_string (ParameterMetadata computation (of_nat k)) = Inr md \<and>
           CompileExecutables env computation args opts =
             (Inl (InvalidArgument
                (''Invalid argument shape for argument '' @ StrFormat_d (int k) @ md @
                 '', expected '' @
                 HumanString env (parameters (host_program_shape computation) ! k) @
                 '', got '' @ HumanString env (args ! k) @ ''.'')), []) \<and>
           CompileAotResults env computation args opts =
             (Inl (InvalidArgument
                (''Invalid argument shape for argument '' @ StrFormat_d (int k) @ md @
                 '', expected '' @
                 HumanString env (parameters (host_program_shape computation) ! k) @
                 '', got '' @ HumanString env (args ! k) @ ''.'')), [])))"
proof (intro conjI impI)
  assume a: "validation_rejects_with_InvalidArgument env args \<and>
    has_host_program_shape computation \<and>
      (length args \<noteq> length (parameters (host_program_shape computation)) \<or>
       (\<exists>i < length args.
          \<not> Compatible env (args ! i) (parameters (host_program_shape computation) ! i)))"
  then obtain status where
    g: "GetHloModuleConfig env computation args opts = Inl status" and
    k: "(\<exists>msg. status = InvalidArgument msg) \<or>
        (\<exists>j < length args. ValidateShapeWithOptionalLayout env (args ! j) = Some status)"
    using GetHloModuleConfig_rejects_status [of computation args env opts] by blast
  have "\<exists>msg. status = InvalidArgument msg"
  proof (rule disjE [OF k])
    assume "\<exists>msg. status = InvalidArgument msg"
    then show ?thesis .
  next
    assume "\<exists>j < length args. ValidateShapeWithOptionalLayout env (args ! j) = Some status"
    then obtain j where j: "j < length args"
      "ValidateShapeWithOptionalLayout env (args ! j) = Some status" by blast
    from a have "validation_rejects_with_InvalidArgument env args" by simp
    with j have "is_InvalidArgument status"
      by (auto simp: validation_rejects_with_InvalidArgument_def list_all_length)
    then show ?thesis by (rule is_InvalidArgument_msg)
  qed
  then obtain msg where "status = InvalidArgument msg" by blast
  with CompileExecutables_config_error [OF g] CompileAotResults_config_error [OF g]
  show "\<exists>msg.
           CompileExecutables env computation args opts = (Inl (InvalidArgument msg), []) \<and>
           CompileAotResults env computation args opts = (Inl (InvalidArgument msg), [])"
    by blast
next
  assume "\<not> has_host_program_shape computation"
  then have g: "GetHloModuleConfig env computation args opts =
      Inl (Status INTERNAL (''RET_CHECK failure '' @ ''proto.has_host_program_shape()''))"
    by (simp add: GetHloModuleConfig_def TF_RET_CHECK_failure_def)
  from CompileExecutables_config_error [OF g] CompileAotResults_config_error [OF g]
  show "\<exists>msg.
           CompileExecutables env computation args opts = (Inl (Status INTERNAL msg), []) \<and>
           CompileAotResults env computation args opts = (Inl (Status INTERNAL msg), [])"
    by blast
next
  assume "(\<exists>exes. fst (CompileExecutables env computation args opts) = Inr exes) \<or>
       (\<exists>aots. fst (CompileAotResults env computation args opts) = Inr aots)"
  then obtain config where g: "GetHloModuleConfig env computation args opts = Inr config"
    using CompileExecutables_success_config CompileAotResults_success_config by blast
  from GetHloModuleConfig_success [OF g]
  have s: "has_host_program_shape computation \<and>
         length args = length (parameters (host_program_shape computation)) \<and>
         (\<forall>i < length args.
            ValidateShapeWithOptionalLayout env (args ! i) = None \<and>
            Compatible env (args ! i) (parameters (host_program_shape computation) ! i))" .
  from s show "has_host_program_shape computation" by simp
  from s show "length args = length (parameters (host_program_shape computation))" by simp
  from s show "\<forall>i < length args.
            ValidateShapeWithOptionalLayout env (args ! i) = None \<and>
            Compatible env (args ! i) (parameters (host_program_shape computation) ! i)" by simp
next
  assume "has_host_program_shape computation \<and>
        length args \<noteq> length (parameters (host_program_shape computation))"
  then have g: "GetHloModuleConfig env computation args opts =
           Inl (InvalidArgument
               (''Invalid number of arguments for computation: expected '' @
                StrFormat_d (int (length (parameters (host_program_shape computation)))) @
                '', got '' @ StrFormat_u (length args) @ ''.''))"
    using GetHloModuleConfig_wrong_count [of computation args env opts] by blast
  show "CompileExecutables env computation args opts =
          (Inl (InvalidArgument
             (''Invalid number of arguments for computation: expected '' @
              StrFormat_d (int (length (parameters (host_program_shape computation)))) @
              '', got '' @ StrFormat_u (length args) @ ''.'')), [])"
    by (rule CompileExecutables_config_error [OF g])
  show "CompileAotResults env computation args opts =
          (Inl (InvalidArgument
             (''Invalid number of arguments for computation: expected '' @
              StrFormat_d (int (length (parameters (host_program_shape computation)))) @
              '', got '' @ StrFormat_u (length args) @ ''.'')), [])"
    by (rule CompileAotResults_config_error [OF g])
next
  assume "has_host_program_shape computation \<and>
        length args = length (parameters (host_program_shape computation)) \<and>
        k < length args \<and>
        (\<forall>j \<le> k. ValidateShapeWithOptionalLayout env (args ! j) = None) \<and>
        (\<forall>j < k. Compatible env (args ! j) (parameters (host_program_shape computation) ! j)) \<and>
        \<not> Compatible env (args ! k) (parameters (host_program_shape computation) ! k)"
  then obtain md where
    md: "metadata_string (ParameterMetadata computation (of_nat k)) = Inr md" and
    g: "GetHloModuleConfig env computation args opts =
             Inl (InvalidArgument
                (''Invalid argument shape for argument '' @ StrFormat_d (int k) @ md @
                 '', expected '' @
                 HumanString env (parameters (host_program_shape computation) ! k) @
                 '', got '' @ HumanString env (args ! k) @ ''.''))"
    using GetHloModuleConfig_incompatible [of computation args k env opts] by blast
  from md CompileExecutables_config_error [OF g] CompileAotResults_config_error [OF g]
  show "\<exists>md. metadata_string (ParameterMetadata computation (of_nat k)) = Inr md \<and>
           CompileExecutables env computation args opts =
             (Inl (InvalidArgument
                (''Invalid argument shape for argument '' @ StrFormat_d (int k) @ md @
                 '', expected '' @
                 HumanString env (parameters (host_program_shape computation) ! k) @
                 '', got '' @ HumanString env (args ! k) @ ''.'')), []) \<and>
           CompileAotResults env computation args opts =
             (Inl (InvalidArgument
                (''Invalid argument shape for argument '' @ StrFormat_d (int k) @ md @
                 '', expected '' @
                 HumanString env (parameters (host_program_shape computation) ! k) @
                 '', got '' @ HumanString env (args ! k) @ ''.'')), [])"
    by blast
qed

lemma example_shape: "has_host_program_shape example_computation"
  "parameters (host_program_shape example_computation) = [3, 4]"
  by (simp_all add: example_computation_def)

lemma example_GetHloModuleConfig_bad:
  "GetHloModuleConfig example_env example_computation [8, 4] (example_options 1) =
     Inl (InvalidArgument
       ''Invalid argument shape for argument 0 (model.py:12), expected 3, got 8.'')"
  apply (simp add: GetHloModuleConfig_def example_shape Let_def)
  apply (simp add: check_argument_layouts.simps [of _ _ _ _ 0] example_env_def example_shape)
  apply (simp add: ParameterMetadata_def example_computation_def example_instrs_def
       HloOpcodeString_kParameter_def metadata_string_def StrFormat_d_def StrFormat_u.simps digit_char_def)
  done

lemma example_GetHloModuleConfig_invalid:
  "GetHloModuleConfig example_env example_computation [0, 4] (example_options 1) =
     Inl (InvalidArgument ''shape has no element type'')"
  apply (simp add: GetHloModuleConfig_def example_shape Let_def)
  apply (simp add: check_argument_layouts.simps [of _ _ _ _ 0] example_env_def)
  done

theorem compile_rejects_invalid_arguments_counterexample:
  "length [3::nat] \<noteq> length (parameters (host_program_shape empty_computation))
   \<and> status_code_of (fst (CompileExecutables example_env empty_computation [3]
                             (example_options 1))) = Some INTERNAL
   \<and> snd (CompileExecutables example_env empty_computation [3] (example_options 1)) = []
   \<and> status_code_of (fst (CompileAotResults example_env empty_computation [3]
                             (example_options 1))) = Some INTERNAL
   \<and> snd (CompileAotResults example_env empty_computation [3] (example_options 1)) = []"
  by (simp add: CompileExecutables_def CompileAotResults_def GetHloModuleConfig_def
        empty_computation_def TF_RET_CHECK_failure_def status_code_of_def)

theorem compile_rejects_invalid_arguments_witness:
  "validation_rejects_with_InvalidArgument example_env [8, 4]
   \<and> has_host_program_shape example_computation
   \<and> \<not> Compatible example_env ([8, 4] ! 0) (parameters (host_program_shape example_computation) ! 0)
   \<and> CompileExecutables example_env example_computation [8, 4] (example_options 1) =
        (Inl (InvalidArgument
           ''Invalid argument shape for argument 0 (model.py:12), expected 3, got 8.''), [])
   \<and> CompileAotResults example_env example_computation [8, 4] (example_options 1) =
        (Inl (InvalidArgument
           ''Invalid argument shape for argument 0 (model.py:12), expected 3, got 8.''), [])
   \<and> validation_rejects_with_InvalidArgument example_env [0, 4]
   \<and> CompileAotResults example_env example_computation [0, 4] (example_options 1) =
        (Inl (InvalidArgument ''shape has no element type''), [])
   \<and> \<not> has_host_program_shape empty_computation
   \<and> status_code_of (fst (CompileExecutables example_env empty_computation [3]
                             (example_options 1))) = Some INTERNAL
   \<and> fst (CompileExecutables example_env example_computation [3, 4] (example_options 1)) = Inr [4097]
   \<and> length [3::nat, 4] = length (parameters (host_program_shape example_computation))"
proof -
  have v: "validation_rejects_with_InvalidArgument example_env [8, 4]"
    by (simp add: validation_rejects_with_InvalidArgument_def example_env_def)
  have v0: "validation_rejects_with_InvalidArgument example_env [0, 4]"
    by (simp add: validation_rejects_with_InvalidArgument_def example_env_def
          is_InvalidArgument_def InvalidArgument_def)
  have c: "\<not> Compatible example_env ([8, 4] ! 0) (parameters (host_program_shape example_computation) ! 0)"
    by (simp add: example_env_def example_shape)
  have c0: "\<not> Compatible example_env ([0, 4] ! 0) (parameters (host_program_shape example_computation) ! 0)"
    by (simp add: example_env_def example_shape)
  have bad: "validation_rejects_with_InvalidArgument example_env [8, 4] \<and>
     has_host_program_shape example_computation \<and>
      (length [8::nat, 4] \<noteq> length (parameters (host_program_shape example_computation)) \<or>
       (\<exists>i < length [8::nat, 4].
          \<not> Compatible example_env ([8, 4] ! i) (parameters (host_program_shape example_computation) ! i)))"
    using v c by (auto simp: example_shape)
  from compile_rejects_invalid_arguments
         [of example_env "[8, 4]" example_computation "example_options 1"] bad
  obtain msg where
    ce: "CompileExecutables example_env example_computation [8, 4] (example_options 1) =
           (Inl (InvalidArgument msg), [])"
    and ca: "CompileAotResults example_env example_computation [8, 4] (example_options 1) =
           (Inl (InvalidArgument msg), [])"
    by blast
  have "CompileExecutables example_env example_computation [8, 4] (example_options 1) =
        (Inl (InvalidArgument
           ''Invalid argument shape for argument 0 (model.py:12), expected 3, got 8.''), [])"
    by (simp add: CompileExecutables_def example_GetHloModuleConfig_bad)
  with ce have st: "msg =
           ''Invalid argument shape for argument 0 (model.py:12), expected 3, got 8.''"
    by (simp add: InvalidArgument_def)
  have bad0: "validation_rejects_with_InvalidArgument example_env [0, 4] \<and>
     has_host_program_shape example_computation \<and>
      (length [0::nat, 4] \<noteq> length (parameters (host_program_shape example_computation)) \<or>
       (\<exists>i < length [0::nat, 4].
          \<not> Compatible example_env ([0, 4] ! i) (parameters (host_program_shape example_computation) ! i)))"
    using v0 c0 by (auto simp: example_shape)
  from compile_rejects_invalid_arguments
         [of example_env "[0, 4]" example_computation "example_options 1"] bad0
  obtain msg0 where
    ca0: "CompileAotResults example_env example_computation [0, 4] (example_options 1) =
           (Inl (InvalidArgument msg0), [])"
    by blast
  have "CompileAotResults example_env example_computation [0, 4] (example_options 1) =
        (Inl (InvalidArgument ''shape has no element type''), [])"
    by (simp add: CompileAotResults_def example_GetHloModuleConfig_invalid)
  with ca0 have st0: "msg0 = ''shape has no element type''"
    by (simp add: InvalidArgument_def)
  have ne: "\<not> has_host_program_shape empty_computation"
    by (simp add: empty_computation_def)
  from compile_rejects_invalid_arguments
         [of example_env "[3]" empty_computation "example_options 1"] ne
  obtain m where "CompileExecutables example_env empty_computation [3] (example_options 1) =
        (Inl (Status INTERNAL m), [])"
    by blast
  then have rc: "status_code_of (fst (CompileExecutables example_env empty_computation [3]
                             (example_options 1))) = Some INTERNAL"
    by (simp add: status_code_of_def)
  have g: "GetHloModuleConfig example_env example_computation [3, 4] (example_options 1) = Inr 2"
    apply (simp add: GetHloModuleConfig_def example_shape Let_def)
    apply (simp add: check_argument_layouts.simps [of _ _ _ _ 0]
         check_argument_layouts.simps [of _ _ _ _ "Suc 0"]
         check_argument_layouts.simps [of _ _ _ _ "Suc (Suc 0)"] example_env_def example_shape
         example_options_def)
    done
  have ok: "fst (CompileExecutables example_env example_computation [3, 4] (example_options 1)) = Inr [4097]"
    by (simp add: CompileExecutables_def g) (simp add: example_env_def example_options_def)
  from compile_rejects_invalid_arguments
         [of example_env "[3, 4]" example_computation "example_options 1"] ok
  have len: "length [3::nat, 4] = length (parameters (host_program_shape example_computation))"
    by blast
  show ?thesis using v v0 c ce ca st ca0 st0 ne rc ok len by (simp add: example_shape)
qed

section \<open>Properties of GlobalDataToShapedBuffer\<close>

text \<open>
  C9 (amended). For a handle that resolves to a vector of buffers,
  \<open>GlobalDataToShapedBuffer\<close> returns \<open>InvalidArgument\<close> whenever \<open>replica_number\<close> is
  negative or at least the number of buffers: the comparison is made in \<open>size_t\<close>, where
  a negative \<open>int\<close> is a number above every vector size. Otherwise it returns the buffer
  at index \<open>replica_number\<close>. The index is never out of range, so the sign of
  \<open>replica_number\<close> is not a precondition.
\<close>

theorem GlobalDataToShapedBuffer_checks_both_bounds:
  assumes "Resolve data = Inr buffers" and "length buffers \<le> vector_max_size"
  shows "(sint n < 0 \<or> int (length buffers) \<le> sint n \<longrightarrow>
            GlobalDataToShapedBuffer Resolve data n =
              Inl (InvalidArgument
                 (''replica_number '' @ StrFormat_d (sint n) @
                  '' out of range; must be less than num_replicas = '' @
                  StrFormat_u (length buffers) @ ''.'')))
       \<and> (0 \<le> sint n \<and> sint n < int (length buffers) \<longrightarrow>
            GlobalDataToShapedBuffer Resolve data n = Inr (buffers ! nat (sint n)))
       \<and> GlobalDataToShapedBuffer Resolve data n \<noteq> Inl OutOfBounds"
proof (cases "sint n < 0")
  case True
  have "length buffers < 2 ^ 60" using assms(2) by (simp add: vector_max_size_def)
  moreover have "- (2 ^ 31) \<le> sint n" using sint_int32_bounds [of n] by simp
  ultimately have "length buffers \<le> nat (2 ^ 64 + sint n)" by simp
  then have "length buffers \<le> unat (scast n :: size_t)"
    by (simp only: unat_scast_neg [OF True])
  then show ?thesis using True assms(1)
    by (simp add: GlobalDataToShapedBuffer_def InvalidArgument_def)
next
  case False
  then have u: "unat (scast n :: size_t) = nat (sint n)"
    by (simp add: unat_scast_nonneg)
  show ?thesis using False assms(1)
    by (auto simp: GlobalDataToShapedBuffer_def InvalidArgument_def u vector_at_def)
qed

theorem GlobalDataToShapedBuffer_checks_both_bounds_counterexample:
  "example_Resolve 0 = Inr [10, 20]
   \<and> sint (- 1 :: int32) < int (length [10::nat, 20])
   \<and> GlobalDataToShapedBuffer example_Resolve 0 (- 1) =
       Inl (InvalidArgument
         ''replica_number -1 out of range; must be less than num_replicas = 2.'')"
  by (simp add: GlobalDataToShapedBuffer_def example_Resolve_def StrFormat_d_def
        StrFormat_u.simps digit_char_def unat_minus_one_size_t)

theorem GlobalDataToShapedBuffer_checks_both_bounds_witness:
  "example_Resolve 0 = Inr [10, 20]
   \<and> length [10::nat, 20] \<le> vector_max_size
   \<and> GlobalDataToShapedBuffer example_Resolve 0 1 = Inr 20
   \<and> GlobalDataToShapedBuffer example_Resolve 0 2 =
       Inl (InvalidArgument
         ''replica_number 2 out of range; must be less than num_replicas = 2.'')
   \<and> GlobalDataToShapedBuffer example_Resolve 0 (- 5) =
       Inl (InvalidArgument
         ''replica_number -5 out of range; must be less than num_replicas = 2.'')"
proof -
  have r: "example_Resolve 0 = Inr [10, 20]"
    by (simp add: example_Resolve_def)
  have m: "length [10::nat, 20] \<le> vector_max_size"
    by (simp add: vector_max_size_def)
  note t = GlobalDataToShapedBuffer_checks_both_bounds
             [of example_Resolve 0 "[10, 20]", OF r m]
  have a: "GlobalDataToShapedBuffer example_Resolve 0 1 = Inr 20"
    using t [of 1] by simp
  have b: "GlobalDataToShapedBuffer example_Resolve 0 2 =
       Inl (InvalidArgument
         ''replica_number 2 out of range; must be less than num_replicas = 2.'')"
    using t [of 2] by (simp add: StrFormat_d_def StrFormat_u.simps digit_char_def)
  have c: "GlobalDataToShapedBuffer example_Resolve 0 (- 5) =
       Inl (InvalidArgument
         ''replica_number -5 out of range; must be less than num_replicas = 2.'')"
    using t [of "- 5"] by (simp add: StrFormat_d_def StrFormat_u.simps digit_char_def)
  show ?thesis using r m a b c by simp
qed

section \<open>Properties of CompileExecutables\<close>

lemma vector_fill_nonneg:
  assumes "0 \<le> sint (n::int32)"
  shows "vector_fill n x = Inr (replicate (nat (sint n)) x)"
proof -
  have "sint n < 2 ^ 31" using sint_int32_bounds [of n] by simp
  then have "nat (sint n) \<le> vector_max_size"
    by (simp add: vector_max_size_def)
  then show ?thesis
    by (simp add: vector_fill_def unat_scast_nonneg [OF assms])
qed

lemma vector_fill_neg:
  assumes "sint (n::int32) < 0"
  shows "vector_fill n x = Inl LengthError"
proof -
  have "- (2 ^ 31) \<le> sint n" using sint_int32_bounds [of n] by simp
  then have "vector_max_size < nat (2 ^ 64 + sint n)"
    by (simp add: vector_max_size_def)
  then show ?thesis
    by (simp add: vector_fill_def unat_scast_neg [OF assms])
qed

text \<open>
  C10. A call of \<open>CompileExecutables\<close> with \<open>num_partitions = 1\<close> that returns a result
  returns exactly one executable, the one \<open>BuildExecutable\<close> produced, and that is the
  only builder call. With any other partition count a call that returns a result
  returns what \<open>BuildExecutables\<close> produced for one module and one list of
  \<open>num_partitions\<close> copies of the stream executor of the device ordinal; and whenever
  the configuration and the executor were obtained and the count is not negative, this
  is the builder call made, whatever it returns.
\<close>

theorem CompileExecutables_partition_paths:
  "(\<forall>exes. fst (CompileExecutables env computation args opts) = Inr exes \<and>
           num_partitions opts = 1 \<longrightarrow>
      (\<exists>config executor executable.
         GetHloModuleConfig env computation args opts = Inr config \<and>
         stream_executor env (device_ordinal opts) = Inr executor \<and>
         BuildExecutable env computation config executor
           \<lparr>co_device_allocator = device_allocator opts,
            co_thread_pool = compile_thread_pool opts\<rparr> (run_backend_only opts) = Inr executable \<and>
         CompileExecutables env computation args opts =
           (Inr [executable],
            [BuildExecutable_call computation config executor
               \<lparr>co_device_allocator = device_allocator opts,
                co_thread_pool = compile_thread_pool opts\<rparr> (run_backend_only opts)])))
   \<and> (\<forall>exes. fst (CompileExecutables env computation args opts) = Inr exes \<and>
           num_partitions opts \<noteq> 1 \<longrightarrow>
      0 \<le> sint (num_partitions opts) \<and>
      (\<exists>config executor.
         GetHloModuleConfig env computation args opts = Inr config \<and>
         stream_executor env (device_ordinal opts) = Inr executor \<and>
         BuildExecutables env [computation] [config]
           [replicate (nat (sint (num_partitions opts))) executor]
           \<lparr>co_device_allocator = device_allocator opts,
            co_thread_pool = compile_thread_pool opts\<rparr> (run_backend_only opts) = Inr exes \<and>
         snd (CompileExecutables env computation args opts) =
            [BuildExecutables_call [computation] [config]
               [replicate (nat (sint (num_partitions opts))) executor]
               \<lparr>co_device_allocator = device_allocator opts,
                co_thread_pool = compile_thread_pool opts\<rparr> (run_backend_only opts)]))
   \<and> (\<forall>config executor.
         GetHloModuleConfig env computation args opts = Inr config \<and>
         stream_executor env (device_ordinal opts) = Inr executor \<and>
         num_partitions opts \<noteq> 1 \<and> 0 \<le> sint (num_partitions opts) \<longrightarrow>
         CompileExecutables env computation args opts =
           (BuildExecutables env [computation] [config]
              [replicate (nat (sint (num_partitions opts))) executor]
              \<lparr>co_device_allocator = device_allocator opts,
               co_thread_pool = compile_thread_pool opts\<rparr> (run_backend_only opts),
            [BuildExecutables_call [computation] [config]
               [replicate (nat (sint (num_partitions opts))) executor]
               \<lparr>co_device_allocator = device_allocator opts,
                co_thread_pool = compile_thread_pool opts\<rparr> (run_backend_only opts)]))"
proof (intro conjI allI impI)
  fix exes
  assume asm: "fst (CompileExecutables env computation args opts) = Inr exes \<and>
           num_partitions opts = 1"
  then have one: "num_partitions opts = 1" by simp
  from asm have a: "fst (CompileExecutables env computation args opts) = Inr exes" by simp
  from a obtain config where g: "GetHloModuleConfig env computation args opts = Inr config"
    by (cases "GetHloModuleConfig env computation args opts")
       (simp_all add: CompileExecutables_def)
  from a g obtain executor where e: "stream_executor env (device_ordinal opts) = Inr executor"
    by (cases "stream_executor env (device_ordinal opts)")
       (simp_all add: CompileExecutables_def Let_def)
  from one a g e obtain executable where
    b: "BuildExecutable env computation config executor
           \<lparr>co_device_allocator = device_allocator opts,
            co_thread_pool = compile_thread_pool opts\<rparr> (run_backend_only opts) = Inr executable"
    by (cases "BuildExecutable env computation config executor
           \<lparr>co_device_allocator = device_allocator opts,
            co_thread_pool = compile_thread_pool opts\<rparr> (run_backend_only opts)")
       (simp_all add: CompileExecutables_def Let_def)
  have "CompileExecutables env computation args opts =
           (Inr [executable],
            [BuildExecutable_call computation config executor
               \<lparr>co_device_allocator = device_allocator opts,
                co_thread_pool = compile_thread_pool opts\<rparr> (run_backend_only opts)])"
    using one a g e b by (simp add: CompileExecutables_def Let_def)
  with g e b show "\<exists>config executor executable.
         GetHloModuleConfig env computation args opts = Inr config \<and>
         stream_executor env (device_ordinal opts) = Inr executor \<and>
         BuildExecutable env computation config executor
           \<lparr>co_device_allocator = device_allocator opts,
            co_thread_pool = compile_thread_pool opts\<rparr> (run_backend_only opts) = Inr executable \<and>
         CompileExecutables env computation args opts =
           (Inr [executable],
            [BuildExecutable_call computation config executor
               \<lparr>co_device_allocator = device_allocator opts,
                co_thread_pool = compile_thread_pool opts\<rparr> (run_backend_only opts)])"
    by blast
next
  fix exes
  assume asm: "fst (CompileExecutables env computation args opts) = Inr exes \<and>
           num_partitions opts \<noteq> 1"
  then have one: "num_partitions opts \<noteq> 1" by simp
  from asm have a: "fst (CompileExecutables env computation args opts) = Inr exes" by simp
  from a obtain config where g: "GetHloModuleConfig env computation args opts = Inr config"
    by (cases "GetHloModuleConfig env computation args opts")
       (simp_all add: CompileExecutables_def)
  from a g obtain executor where e: "stream_executor env (device_ordinal opts) = Inr executor"
    by (cases "stream_executor env (device_ordinal opts)")
       (simp_all add: CompileExecutables_def Let_def)
  show nonneg: "0 \<le> sint (num_partitions opts)"
  proof (rule ccontr)
    assume "\<not> 0 \<le> sint (num_partitions opts)"
    then have "vector_fill (num_partitions opts) executor = Inl LengthError"
      by (simp add: vector_fill_neg)
    with one a g e show False by (simp add: CompileExecutables_def Let_def)
  qed
  have v: "vector_fill (num_partitions opts) executor =
      Inr (replicate (nat (sint (num_partitions opts))) executor)"
    by (rule vector_fill_nonneg [OF nonneg])
  have "BuildExecutables env [computation] [config]
           [replicate (nat (sint (num_partitions opts))) executor]
           \<lparr>co_device_allocator = device_allocator opts,
            co_thread_pool = compile_thread_pool opts\<rparr> (run_backend_only opts) = Inr exes"
    using one a g e v by (simp add: CompileExecutables_def Let_def)
  moreover have "snd (CompileExecutables env computation args opts) =
            [BuildExecutables_call [computation] [config]
               [replicate (nat (sint (num_partitions opts))) executor]
               \<lparr>co_device_allocator = device_allocator opts,
                co_thread_pool = compile_thread_pool opts\<rparr> (run_backend_only opts)]"
    using one a g e v by (simp add: CompileExecutables_def Let_def)
  ultimately show "\<exists>config executor.
         GetHloModuleConfig env computation args opts = Inr config \<and>
         stream_executor env (device_ordinal opts) = Inr executor \<and>
         BuildExecutables env [computation] [config]
           [replicate (nat (sint (num_partitions opts))) executor]
           \<lparr>co_device_allocator = device_allocator opts,
            co_thread_pool = compile_thread_pool opts\<rparr> (run_backend_only opts) = Inr exes \<and>
         snd (CompileExecutables env computation args opts) =
            [BuildExecutables_call [computation] [config]
               [replicate (nat (sint (num_partitions opts))) executor]
               \<lparr>co_device_allocator = device_allocator opts,
                co_thread_pool = compile_thread_pool opts\<rparr> (run_backend_only opts)]"
    using g e by blast
next
  fix config executor
  assume a: "GetHloModuleConfig env computation args opts = Inr config \<and>
         stream_executor env (device_ordinal opts) = Inr executor \<and>
         num_partitions opts \<noteq> 1 \<and> 0 \<le> sint (num_partitions opts)"
  then have v: "vector_fill (num_partitions opts) executor =
      Inr (replicate (nat (sint (num_partitions opts))) executor)"
    by (simp add: vector_fill_nonneg)
  show "CompileExecutables env computation args opts =
           (BuildExecutables env [computation] [config]
              [replicate (nat (sint (num_partitions opts))) executor]
              \<lparr>co_device_allocator = device_allocator opts,
               co_thread_pool = compile_thread_pool opts\<rparr> (run_backend_only opts),
            [BuildExecutables_call [computation] [config]
               [replicate (nat (sint (num_partitions opts))) executor]
               \<lparr>co_device_allocator = device_allocator opts,
                co_thread_pool = compile_thread_pool opts\<rparr> (run_backend_only opts)])"
    using a v by (simp add: CompileExecutables_def Let_def)
qed

lemma example_GetHloModuleConfig_ok:
  "GetHloModuleConfig example_env example_computation [3, 4] (example_options n) = Inr 2"
  apply (simp add: GetHloModuleConfig_def example_shape Let_def)
  apply (simp add: check_argument_layouts.simps [of _ _ _ _ 0]
         check_argument_layouts.simps [of _ _ _ _ "Suc 0"]
         check_argument_layouts.simps [of _ _ _ _ "Suc (Suc 0)"] example_env_def example_shape
         example_options_def)
  done

lemma example_stream_executor:
  "stream_executor example_env (device_ordinal (example_options n)) = Inr 4096"
  by (simp add: example_env_def example_options_def)

theorem CompileExecutables_partition_paths_witness:
  "fst (CompileExecutables example_env example_computation [3, 4] (example_options 1)) = Inr [4097]
   \<and> num_partitions (example_options 1) = 1
   \<and> CompileExecutables example_env example_computation [3, 4] (example_options 1) =
       (Inr [4097],
        [BuildExecutable_call example_computation 2 4096
           \<lparr>co_device_allocator = 0, co_thread_pool = 0\<rparr> False])
   \<and> num_partitions (example_options 3) \<noteq> 1
   \<and> 0 \<le> sint (num_partitions (example_options 3))
   \<and> CompileExecutables example_env example_computation [3, 4] (example_options 3) =
       (Inr [3],
        [BuildExecutables_call [example_computation] [2] [[4096, 4096, 4096]]
           \<lparr>co_device_allocator = 0, co_thread_pool = 0\<rparr> False])"
proof -
  have ok: "fst (CompileExecutables example_env example_computation [3, 4] (example_options 1)) = Inr [4097]"
    by (simp add: CompileExecutables_def example_GetHloModuleConfig_ok example_stream_executor)
       (simp add: example_env_def example_options_def)
  have one: "num_partitions (example_options 1) = 1"
    by (simp add: example_options_def)
  from CompileExecutables_partition_paths
         [of example_env example_computation "[3, 4]" "example_options 1"] ok one
  obtain config executor executable where
    g: "GetHloModuleConfig example_env example_computation [3, 4] (example_options 1) = Inr config"
    and e: "stream_executor example_env (device_ordinal (example_options 1)) = Inr executor"
    and r: "CompileExecutables example_env example_computation [3, 4] (example_options 1) =
           (Inr [executable],
            [BuildExecutable_call example_computation config executor
               \<lparr>co_device_allocator = device_allocator (example_options 1),
                co_thread_pool = compile_thread_pool (example_options 1)\<rparr>
               (run_backend_only (example_options 1))])"
    by blast
  from g have config: "config = 2" by (simp add: example_GetHloModuleConfig_ok)
  from e have executor: "executor = 4096" by (simp add: example_stream_executor)
  from r ok have executable: "executable = 4097" by simp
  have r1: "CompileExecutables example_env example_computation [3, 4] (example_options 1) =
       (Inr [4097],
        [BuildExecutable_call example_computation 2 4096
           \<lparr>co_device_allocator = 0, co_thread_pool = 0\<rparr> False])"
    using r config executor executable by (simp add: example_options_def)
  have three: "num_partitions (example_options 3) \<noteq> 1" "0 \<le> sint (num_partitions (example_options 3))"
    by (simp_all add: example_options_def)
  from CompileExecutables_partition_paths
         [of example_env example_computation "[3, 4]" "example_options 3"]
       example_GetHloModuleConfig_ok [of 3] example_stream_executor [of 3] three
  have "CompileExecutables example_env example_computation [3, 4] (example_options 3) =
           (BuildExecutables example_env [example_computation] [2]
              [replicate (nat (sint (num_partitions (example_options 3)))) 4096]
              \<lparr>co_device_allocator = device_allocator (example_options 3),
               co_thread_pool = compile_thread_pool (example_options 3)\<rparr>
              (run_backend_only (example_options 3)),
            [BuildExecutables_call [example_computation] [2]
               [replicate (nat (sint (num_partitions (example_options 3)))) 4096]
               \<lparr>co_device_allocator = device_allocator (example_options 3),
                co_thread_pool = compile_thread_pool (example_options 3)\<rparr>
               (run_backend_only (example_options 3))])"
    by blast
  then have r3: "CompileExecutables example_env example_computation [3, 4] (example_options 3) =
       (Inr [3],
        [BuildExecutables_call [example_computation] [2] [[4096, 4096, 4096]]
           \<lparr>co_device_allocator = 0, co_thread_pool = 0\<rparr> False])"
    by (simp add: example_options_def example_env_def numeral_3_eq_3)
  show ?thesis using ok one r1 three r3 by simp
qed

section \<open>Properties of the coordination service\<close>

lemma call_time_simp [simp]: "call_time (now, timeout, ps, caller) = now"
  by (simp add: call_time_def)

lemma call_timeout_simp [simp]: "call_timeout (now, timeout, ps, caller) = timeout"
  by (simp add: call_timeout_def)

lemma call_task_simp [simp]: "call_task (now, timeout, ps, caller) = caller"
  by (simp add: call_task_def)

lemma call_participants_simp [simp]: "call_participants (now, timeout, ps, caller) = ps"
  by (simp add: call_participants_def)

lemma barrier_calls_Cons:
  "barrier_calls s name ((now, timeout, ps, caller) # rest) =
     (fst (barrier_calls (fst (BarrierAsync s now name timeout ps caller)) name rest),
      snd (BarrierAsync s now name timeout ps caller) #
      snd (barrier_calls (fst (BarrierAsync s now name timeout ps caller)) name rest))"
  by (simp add: case_prod_unfold Let_def)

lemma barrier_instance_pending:
  "barriers s name = Some b \<Longrightarrow> result_status b = Pending \<Longrightarrow>
     barrier_instance s now name timeout ps = b"
  by (simp add: barrier_instance_def)

lemma barrier_instance_fresh:
  "\<not> barrier_pending s name \<Longrightarrow>
     barrier_instance s now name timeout ps =
       \<lparr>expected = ps, arrived = [], deadline = now + timeout,
        result_status = Pending, waiters = []\<rparr>"
  by (simp add: barrier_instance_def barrier_pending_def split: option.splits)

lemma BarrierAsync_pending_park:
  assumes "barriers s name = Some b" and "result_status b = Pending"
    and "now < deadline b"
    and "set ps = set (expected b)"
    and "\<not> set (expected b) \<subseteq> set (arrived b) \<union> {caller}"
  shows "BarrierAsync s now name timeout ps caller =
           (s\<lparr>barriers := (barriers s)(name \<mapsto>
                b\<lparr>arrived := arrived b @ [caller], waiters := waiters b @ [caller]\<rparr>)\<rparr>, [])"
  using assms by (simp add: BarrierAsync_def Let_def barrier_instance_pending)

lemma BarrierAsync_pending_pass:
  assumes "barriers s name = Some b" and "result_status b = Pending"
    and "now < deadline b"
    and "set ps = set (expected b)"
    and "set (expected b) \<subseteq> set (arrived b) \<union> {caller}"
  shows "BarrierAsync s now name timeout ps caller =
           (s\<lparr>barriers := (barriers s)(name \<mapsto>
                b\<lparr>arrived := arrived b @ [caller], result_status := Passed, waiters := []\<rparr>)\<rparr>,
            map (\<lambda>w. (w, name, Passed)) (waiters b @ [caller]))"
  using assms by (simp add: BarrierAsync_def Let_def barrier_instance_pending resolve_barrier_def)

lemma barrier_calls_pending:
  assumes "barriers s name = Some b" and "result_status b = Pending"
    and "set (expected b) = set P"
    and "cs \<noteq> []"
    and "\<forall>c \<in> set cs. set (call_participants c) = set P"
    and "distinct (map call_task cs)"
    and "set (arrived b) \<inter> set (map call_task cs) = {}"
    and "set (arrived b) \<union> set (map call_task cs) = set P"
    and "\<forall>c \<in> set cs. call_time c < deadline b"
  shows "snd (barrier_calls s name cs) =
           replicate (length cs - 1) [] @
           [map (\<lambda>w. (w, name, Passed)) (waiters b @ map call_task cs)]
         \<and> (\<exists>b'. barriers (fst (barrier_calls s name cs)) name = Some b' \<and>
                   result_status b' = Passed \<and> waiters b' = [])"
  using assms
proof (induction cs arbitrary: s b)
  case Nil
  then show ?case by simp
next
  case (Cons c cs)
  obtain now timeout ps caller where c: "c = (now, timeout, ps, caller)"
    by (cases c) auto
  from Cons.prems(5) c have ps: "set ps = set (expected b)"
    using Cons.prems(3) by simp
  from Cons.prems(9) c have early: "now < deadline b" by simp
  show ?case
  proof (cases "cs = []")
    case True
    with Cons.prems(8) c have "set (expected b) \<subseteq> set (arrived b) \<union> {caller}"
      using Cons.prems(3) by auto
    from BarrierAsync_pending_pass [OF Cons.prems(1,2) early ps this, of timeout]
    show ?thesis using True c by simp
  next
    case False
    then obtain c' where c': "c' \<in> set cs" using hd_in_set by blast
    have "call_task c' \<in> set P" using Cons.prems(8) c' by auto
    moreover have "call_task c' \<notin> set (arrived b)" using Cons.prems(7) c' by auto
    moreover have "call_task c' \<noteq> caller" using Cons.prems(6) c c'
      by auto
    ultimately have np: "\<not> set (expected b) \<subseteq> set (arrived b) \<union> {caller}"
      using Cons.prems(3) by auto
    let ?b = "b\<lparr>arrived := arrived b @ [caller], waiters := waiters b @ [caller]\<rparr>"
    let ?s = "s\<lparr>barriers := (barriers s)(name \<mapsto> ?b)\<rparr>"
    have step: "BarrierAsync s now name timeout ps caller = (?s, [])"
      by (rule BarrierAsync_pending_park [OF Cons.prems(1,2) early ps np])
    have ih: "snd (barrier_calls ?s name cs) =
           replicate (length cs - 1) [] @
           [map (\<lambda>w. (w, name, Passed)) (waiters ?b @ map call_task cs)]
         \<and> (\<exists>b'. barriers (fst (barrier_calls ?s name cs)) name = Some b' \<and>
                   result_status b' = Passed \<and> waiters b' = [])"
    proof (rule Cons.IH [OF _ _ _ False])
      show "barriers ?s name = Some ?b" by simp
      show "result_status ?b = Pending" using Cons.prems(2) by simp
      show "set (expected ?b) = set P" using Cons.prems(3) by simp
      show "\<forall>c \<in> set cs. set (call_participants c) = set P" using Cons.prems(5) by simp
      show "distinct (map call_task cs)" using Cons.prems(6) by simp
      show "set (arrived ?b) \<inter> set (map call_task cs) = {}"
        using Cons.prems(6,7) c by auto
      show "set (arrived ?b) \<union> set (map call_task cs) = set P"
        using Cons.prems(8) c by auto
      show "\<forall>c \<in> set cs. call_time c < deadline ?b"
        using Cons.prems(9) by simp
    qed
    have len: "replicate (length (c # cs) - 1) ([] :: response list) =
               [] # replicate (length cs - 1) []"
      using False by (cases cs) simp_all
    show ?thesis
      using ih step len unfolding c barrier_calls_Cons by simp
  qed
qed


lemma BarrierAsync_fresh_park:
  assumes "\<not> barrier_pending s name" and "0 < timeout" and "\<not> set ps \<subseteq> {caller}"
  shows "BarrierAsync s now name timeout ps caller =
           (s\<lparr>barriers := (barriers s)(name \<mapsto>
                \<lparr>expected = ps, arrived = [caller], deadline = now + timeout,
                 result_status = Pending, waiters = [caller]\<rparr>)\<rparr>, [])"
  using assms by (simp add: BarrierAsync_def Let_def barrier_instance_fresh)

lemma BarrierAsync_fresh_pass:
  assumes "\<not> barrier_pending s name" and "0 < timeout" and "set ps \<subseteq> {caller}"
  shows "BarrierAsync s now name timeout ps caller =
           (s\<lparr>barriers := (barriers s)(name \<mapsto>
                \<lparr>expected = ps, arrived = [caller], deadline = now + timeout,
                 result_status = Passed, waiters = []\<rparr>)\<rparr>,
            [(caller, name, Passed)])"
  using assms by (simp add: BarrierAsync_def Let_def barrier_instance_fresh resolve_barrier_def)

text \<open>
  C2 (amended). From a state in which no barrier of that name is waiting, let N distinct
  tasks call \<open>BarrierAsync\<close> on the name, one call each, every call with the same set of
  participants, which is the set of the N callers, and every call before the deadline
  that the first call fixes (its time plus its timeout). Then the first N - 1 calls set
  off no response at all, and the N-th call sets off exactly one response per caller, in
  the order of arrival, each of them passed; the barrier is left resolved passed with no
  waiter.
\<close>

theorem BarrierAsync_all_participants_pass:
  assumes "\<not> barrier_pending s name"
    and "cs \<noteq> []"
    and "\<forall>c \<in> set cs. set (call_participants c) = set P"
    and "distinct (map call_task cs)"
    and "set (map call_task cs) = set P"
    and "\<forall>c \<in> set cs. call_time c < call_time (hd cs) + call_timeout (hd cs)"
  shows "snd (barrier_calls s name cs) =
           replicate (length cs - 1) [] @ [map (\<lambda>c. (call_task c, name, Passed)) cs]
         \<and> (\<exists>b. barriers (fst (barrier_calls s name cs)) name = Some b \<and>
                  result_status b = Passed \<and> waiters b = [])"
proof -
  from assms(2) obtain c rest where cs: "cs = c # rest" by (cases cs) auto
  obtain now timeout ps caller where c: "c = (now, timeout, ps, caller)"
    by (cases c) auto
  from assms(3) cs c have ps: "set ps = set P" by simp
  from assms(6) cs c have positive: "0 < timeout" by simp
  show ?thesis
  proof (cases "rest = []")
    case True
    with assms(5) cs c ps have "set ps \<subseteq> {caller}" by simp
    from BarrierAsync_fresh_pass [OF assms(1) positive this, of now]
    show ?thesis using True cs c by simp
  next
    case False
    then obtain c' where c': "c' \<in> set rest" using hd_in_set by blast
    have "call_task c' \<in> set P" using assms(5) cs c' by auto
    moreover have "call_task c' \<noteq> caller" using assms(4) cs c c' by auto
    ultimately have np: "\<not> set ps \<subseteq> {caller}" using ps by auto
    let ?b = "\<lparr>expected = ps, arrived = [caller], deadline = now + timeout,
                 result_status = Pending, waiters = [caller]\<rparr>"
    let ?s = "s\<lparr>barriers := (barriers s)(name \<mapsto> ?b)\<rparr>"
    have step: "BarrierAsync s now name timeout ps caller = (?s, [])"
      by (rule BarrierAsync_fresh_park [OF assms(1) positive np])
    have rest: "snd (barrier_calls ?s name rest) =
           replicate (length rest - 1) [] @
           [map (\<lambda>w. (w, name, Passed)) (waiters ?b @ map call_task rest)]
         \<and> (\<exists>b'. barriers (fst (barrier_calls ?s name rest)) name = Some b' \<and>
                   result_status b' = Passed \<and> waiters b' = [])"
    proof (rule barrier_calls_pending [OF _ _ _ False])
      show "barriers ?s name = Some ?b" by simp
      show "result_status ?b = Pending" by simp
      show "set (expected ?b) = set P" using ps by simp
      show "\<forall>c \<in> set rest. set (call_participants c) = set P" using assms(3) cs by simp
      show "distinct (map call_task rest)" using assms(4) cs by simp
      show "set (arrived ?b) \<inter> set (map call_task rest) = {}"
        using assms(4) cs c by auto
      show "set (arrived ?b) \<union> set (map call_task rest) = set P"
        using assms(5) cs c by auto
      show "\<forall>c \<in> set rest. call_time c < deadline ?b"
        using assms(6) cs c by simp
    qed
    have len: "replicate (length (c # rest) - 1) ([] :: response list) =
               [] # replicate (length rest - 1) []"
      using False by (cases rest) simp_all
    show ?thesis
      using rest step len unfolding cs c barrier_calls_Cons by simp
  qed
qed

text \<open>
  C4 (amended). A call that reaches a waiting barrier before its deadline with a
  participant set different from that of the instance resolves the barrier
  failed-mismatch, and every waiter of the instance, the caller included, is answered
  failed-mismatch. In particular, when a first task opens an instance that it does not
  complete alone and a second task calls the same name before the deadline with a
  different participant set, the first call sets off no response and the second sets off
  failed-mismatch for both.
\<close>

theorem BarrierAsync_mismatch_fails_all:
  "(\<forall>b. barriers s name = Some b \<and> result_status b = Pending \<and> now < deadline b \<and>
         set participating_tasks \<noteq> set (expected b) \<longrightarrow>
      BarrierAsync s now name timeout participating_tasks caller =
        (s\<lparr>barriers := (barriers s)(name \<mapsto>
             b\<lparr>result_status := FailedMismatch, waiters := []\<rparr>)\<rparr>,
         map (\<lambda>w. (w, name, FailedMismatch)) (waiters b @ [caller])))
   \<and> (\<not> barrier_pending s name \<and> \<not> set P \<subseteq> {first} \<and> set Q \<noteq> set P \<and>
      0 < timeout \<and> now' < now + timeout \<longrightarrow>
        snd (barrier_calls s name [(now, timeout, P, first), (now', timeout', Q, second)]) =
          [[], [(first, name, FailedMismatch), (second, name, FailedMismatch)]]
        \<and> (\<exists>b. barriers (fst (barrier_calls s name
                    [(now, timeout, P, first), (now', timeout', Q, second)])) name = Some b \<and>
                 result_status b = FailedMismatch \<and> waiters b = []))"
proof (intro conjI allI impI)
  fix b
  assume "barriers s name = Some b \<and> result_status b = Pending \<and> now < deadline b \<and>
         set participating_tasks \<noteq> set (expected b)"
  then show "BarrierAsync s now name timeout participating_tasks caller =
        (s\<lparr>barriers := (barriers s)(name \<mapsto>
             b\<lparr>result_status := FailedMismatch, waiters := []\<rparr>)\<rparr>,
         map (\<lambda>w. (w, name, FailedMismatch)) (waiters b @ [caller]))"
    by (simp add: BarrierAsync_def Let_def barrier_instance_pending resolve_barrier_def)
next
  assume a: "\<not> barrier_pending s name \<and> \<not> set P \<subseteq> {first} \<and> set Q \<noteq> set P \<and>
      0 < timeout \<and> now' < now + timeout"
  let ?b = "\<lparr>expected = P, arrived = [first], deadline = now + timeout,
                 result_status = Pending, waiters = [first]\<rparr>"
  let ?s = "s\<lparr>barriers := (barriers s)(name \<mapsto> ?b)\<rparr>"
  have step1: "BarrierAsync s now name timeout P first = (?s, [])"
    using a by (simp add: BarrierAsync_fresh_park)
  have step2: "BarrierAsync ?s now' name timeout' Q second =
        (?s\<lparr>barriers := (barriers ?s)(name \<mapsto>
             ?b\<lparr>result_status := FailedMismatch, waiters := []\<rparr>)\<rparr>,
         map (\<lambda>w. (w, name, FailedMismatch)) (waiters ?b @ [second]))"
    using a by (simp add: BarrierAsync_def Let_def barrier_instance_def resolve_barrier_def)
  show "snd (barrier_calls s name [(now, timeout, P, first), (now', timeout', Q, second)]) =
          [[], [(first, name, FailedMismatch), (second, name, FailedMismatch)]]"
    unfolding barrier_calls_Cons step1 by (simp add: step2)
  show "\<exists>b. barriers (fst (barrier_calls s name
                    [(now, timeout, P, first), (now', timeout', Q, second)])) name = Some b \<and>
                 result_status b = FailedMismatch \<and> waiters b = []"
    unfolding barrier_calls_Cons step1 by (simp add: step2)
qed

text \<open>
  C5. \<open>Heartbeat\<close> for a task without a record returns \<open>NotFound\<close>. For a task with a
  record, an incarnation lower than the recorded one returns \<open>Aborted\<close> and changes
  nothing, and the recorded incarnation returns ok and sets the time of the last
  heartbeat to the time of the call. The incarnation that \<open>RegisterTask\<close> confirmed is
  accepted until the task registers again, and is answered \<open>Aborted\<close> from then on.
\<close>

theorem Heartbeat_incarnation_check:
  "(tasks s task = None \<longrightarrow> Heartbeat s now task inc = (Inl NOT_FOUND, s))
   \<and> (\<forall>t. tasks s task = Some t \<and> inc < incarnation t \<longrightarrow>
          Heartbeat s now task inc = (Inl ABORTED, s))
   \<and> (\<forall>t. tasks s task = Some t \<and> inc = incarnation t \<longrightarrow>
          Heartbeat s now task inc =
            (Inr (), s\<lparr>tasks := (tasks s)(task \<mapsto> t\<lparr>last_heartbeat := now\<rparr>)\<rparr>))
   \<and> (\<forall>c s'. RegisterTask s registered task inc = (Inr c, s') \<longrightarrow>
          fst (Heartbeat s' now task c) = Inr () \<and>
          (\<exists>t. tasks (snd (Heartbeat s' now task c)) task = Some t \<and> last_heartbeat t = now) \<and>
          fst (Heartbeat (snd (RegisterTask s' restarted task inc')) now task c) = Inl ABORTED)"
  by (auto simp: Heartbeat_def RegisterTask_def split: option.splits)

lemma worker_eq [simp]: "worker m = worker n \<longleftrightarrow> m = n"
  by (simp add: worker_def)

theorem BarrierAsync_all_participants_pass_counterexample:
  "\<not> barrier_pending empty_service ''sync''
   \<and> list_all (\<lambda>c. set (call_participants c) = set [worker 0, worker 1, worker 2]) late_calls
   \<and> distinct (map call_task late_calls)
   \<and> set (map call_task late_calls) = set [worker 0, worker 1, worker 2]
   \<and> snd (barrier_calls empty_service ''sync'' late_calls) =
       [[], [], [(worker 1, ''sync'', FailedTimeout), (worker 0, ''sync'', FailedTimeout),
                 (worker 2, ''sync'', FailedTimeout)]]"
proof -
  have a: "\<not> barrier_pending empty_service ''sync''"
    by (simp add: barrier_pending_def empty_service_def)
  have c: "list_all (\<lambda>c. set (call_participants c) = set [worker 0, worker 1, worker 2])
             late_calls"
    by (simp add: late_calls_def)
  have d: "distinct (map call_task late_calls)"
    by (simp add: late_calls_def)
  have e: "set (map call_task late_calls) = set [worker 0, worker 1, worker 2]"
    by (auto simp: late_calls_def)
  have r: "snd (barrier_calls empty_service ''sync'' late_calls) =
       [[], [], [(worker 1, ''sync'', FailedTimeout), (worker 0, ''sync'', FailedTimeout),
                 (worker 2, ''sync'', FailedTimeout)]]"
    by (simp add: late_calls_def barrier_calls_Cons BarrierAsync_def barrier_instance_def
          resolve_barrier_def empty_service_def Let_def)
  show ?thesis using a c d e r by simp
qed

theorem BarrierAsync_all_participants_pass_witness:
  "\<not> barrier_pending empty_service ''sync''
   \<and> example_calls \<noteq> []
   \<and> list_all (\<lambda>c. set (call_participants c) = set [worker 0, worker 1, worker 2]) example_calls
   \<and> distinct (map call_task example_calls)
   \<and> set (map call_task example_calls) = set [worker 0, worker 1, worker 2]
   \<and> list_all (\<lambda>c. call_time c < call_time (hd example_calls) + call_timeout (hd example_calls))
        example_calls
   \<and> snd (barrier_calls empty_service ''sync'' example_calls) =
       [[], [], [(worker 1, ''sync'', Passed), (worker 0, ''sync'', Passed),
                 (worker 2, ''sync'', Passed)]]"
proof -
  have a: "\<not> barrier_pending empty_service ''sync''"
    by (simp add: barrier_pending_def empty_service_def)
  have b: "example_calls \<noteq> []"
    by (simp add: example_calls_def)
  have c: "\<forall>c \<in> set example_calls.
             set (call_participants c) = set [worker 0, worker 1, worker 2]"
    by (auto simp: example_calls_def)
  have d: "distinct (map call_task example_calls)"
    by (simp add: example_calls_def)
  have e: "set (map call_task example_calls) = set [worker 0, worker 1, worker 2]"
    by (auto simp: example_calls_def)
  have f: "\<forall>c \<in> set example_calls.
             call_time c < call_time (hd example_calls) + call_timeout (hd example_calls)"
    by (simp add: example_calls_def)
  from BarrierAsync_all_participants_pass [OF a b c d e f]
  have "snd (barrier_calls empty_service ''sync'' example_calls) =
          replicate (length example_calls - 1) [] @
          [map (\<lambda>c. (call_task c, ''sync'', Passed)) example_calls]"
    by simp
  then have r: "snd (barrier_calls empty_service ''sync'' example_calls) =
       [[], [], [(worker 1, ''sync'', Passed), (worker 0, ''sync'', Passed),
                 (worker 2, ''sync'', Passed)]]"
    by (simp add: example_calls_def numeral_2_eq_2)
  have c': "list_all (\<lambda>c. set (call_participants c) = set [worker 0, worker 1, worker 2])
              example_calls"
    using c by (simp add: list_all_iff)
  have f': "list_all (\<lambda>c. call_time c < call_time (hd example_calls) + call_timeout (hd example_calls))
              example_calls"
    using f by (simp add: list_all_iff)
  show ?thesis using a b c' d e f' r by simp
qed

theorem BarrierAsync_mismatch_fails_all_counterexample:
  "barriers waiting_service ''sync'' =
     Some \<lparr>expected = [worker 0, worker 1], arrived = [worker 0], deadline = 11,
           result_status = Pending, waiters = [worker 0]\<rparr>
   \<and> set [worker 0, worker 1, worker 2] \<noteq> set [worker 0, worker 1]
   \<and> snd (BarrierAsync waiting_service 50 ''sync'' 10 [worker 0, worker 1, worker 2] (worker 1)) =
       [(worker 0, ''sync'', FailedTimeout), (worker 1, ''sync'', FailedTimeout)]"
proof -
  have w: "barriers waiting_service ''sync'' =
     Some \<lparr>expected = [worker 0, worker 1], arrived = [worker 0], deadline = 11,
           result_status = Pending, waiters = [worker 0]\<rparr>"
    by (simp add: waiting_service_def)
  have "worker 2 \<in> set [worker 0, worker 1, worker 2]" by simp
  moreover have "worker 2 \<notin> set [worker 0, worker 1]" by simp
  ultimately have ne: "set [worker 0, worker 1, worker 2] \<noteq> set [worker 0, worker 1]"
    by metis
  have r: "snd (BarrierAsync waiting_service 50 ''sync'' 10 [worker 0, worker 1, worker 2] (worker 1)) =
       [(worker 0, ''sync'', FailedTimeout), (worker 1, ''sync'', FailedTimeout)]"
    by (simp add: BarrierAsync_def barrier_instance_def resolve_barrier_def
          waiting_service_def Let_def)
  show ?thesis using w ne r by simp
qed

theorem BarrierAsync_mismatch_fails_all_witness:
  "barriers waiting_service ''sync'' =
     Some \<lparr>expected = [worker 0, worker 1], arrived = [worker 0], deadline = 11,
           result_status = Pending, waiters = [worker 0]\<rparr>
   \<and> set [worker 0, worker 1, worker 2] \<noteq> set [worker 0, worker 1]
   \<and> snd (BarrierAsync waiting_service 4 ''sync'' 10 [worker 0, worker 1, worker 2] (worker 1)) =
       [(worker 0, ''sync'', FailedMismatch), (worker 1, ''sync'', FailedMismatch)]
   \<and> \<not> barrier_pending empty_service ''sync''
   \<and> \<not> set [worker 0, worker 1] \<subseteq> {worker 0}
   \<and> snd (barrier_calls empty_service ''sync''
            [(1, 10, [worker 0, worker 1], worker 0),
             (4, 10, [worker 0, worker 1, worker 2], worker 1)]) =
       [[], [(worker 0, ''sync'', FailedMismatch), (worker 1, ''sync'', FailedMismatch)]]"
proof -
  have w: "barriers waiting_service ''sync'' =
     Some \<lparr>expected = [worker 0, worker 1], arrived = [worker 0], deadline = 11,
           result_status = Pending, waiters = [worker 0]\<rparr>"
    by (simp add: waiting_service_def)
  have "worker 2 \<in> set [worker 0, worker 1, worker 2]" by simp
  moreover have "worker 2 \<notin> set [worker 0, worker 1]" by simp
  ultimately have ne: "set [worker 0, worker 1, worker 2] \<noteq> set [worker 0, worker 1]"
    by metis
  have a: "\<not> barrier_pending empty_service ''sync''"
    by (simp add: barrier_pending_def empty_service_def)
  have np: "\<not> set [worker 0, worker 1] \<subseteq> {worker 0}"
    by simp
  note t1 = BarrierAsync_mismatch_fails_all
      [where s = waiting_service and name = "''sync''"
         and participating_tasks = "[worker 0, worker 1, worker 2]"
         and now = 4 and timeout = 10 and caller = "worker 1"]
  from t1 w ne
  have r1: "snd (BarrierAsync waiting_service 4 ''sync'' 10 [worker 0, worker 1, worker 2] (worker 1)) =
       [(worker 0, ''sync'', FailedMismatch), (worker 1, ''sync'', FailedMismatch)]"
    by simp
  note t2 = BarrierAsync_mismatch_fails_all
      [where s = empty_service and name = "''sync''" and P = "[worker 0, worker 1]"
         and first = "worker 0" and Q = "[worker 0, worker 1, worker 2]"
         and now = 1 and timeout = 10 and now' = 4 and timeout' = 10
         and second = "worker 1"]
  have early: "(0::nat) < 10 \<and> (4::nat) < 1 + 10" by simp
  from t2 a np ne early
  have r2: "snd (barrier_calls empty_service ''sync''
            [(1, 10, [worker 0, worker 1], worker 0),
             (4, 10, [worker 0, worker 1, worker 2], worker 1)]) =
       [[], [(worker 0, ''sync'', FailedMismatch), (worker 1, ''sync'', FailedMismatch)]]"
    by blast
  show ?thesis using w ne r1 a np r2 by simp
qed

theorem Heartbeat_incarnation_check_witness:
  "tasks registered_service (worker 1) = None
   \<and> Heartbeat registered_service 9 (worker 1) 5 = (Inl NOT_FOUND, registered_service)
   \<and> tasks registered_service (worker 0) =
       Some \<lparr>task_status = Registered, last_heartbeat = 3, incarnation = 5\<rparr>
   \<and> Heartbeat registered_service 9 (worker 0) 4 = (Inl ABORTED, registered_service)
   \<and> fst (Heartbeat registered_service 9 (worker 0) 5) = Inr ()
   \<and> tasks (snd (Heartbeat registered_service 9 (worker 0) 5)) (worker 0) =
       Some \<lparr>task_status = Registered, last_heartbeat = 9, incarnation = 5\<rparr>
   \<and> RegisterTask empty_service 1 (worker 0) 7 =
       (Inr 7, empty_service\<lparr>tasks := [worker 0 \<mapsto>
          \<lparr>task_status = Registered, last_heartbeat = 1, incarnation = 7\<rparr>]\<rparr>)
   \<and> fst (Heartbeat (snd (RegisterTask (snd (RegisterTask empty_service 1 (worker 0) 7))
                               2 (worker 0) 7)) 9 (worker 0) 7) = Inl ABORTED"
proof -
  have n: "tasks registered_service (worker 1) = None"
    by (simp add: registered_service_def)
  have t: "tasks registered_service (worker 0) =
       Some \<lparr>task_status = Registered, last_heartbeat = 3, incarnation = 5\<rparr>"
    by (simp add: registered_service_def)
  from Heartbeat_incarnation_check [of registered_service "worker 1" 9 5] n
  have a: "Heartbeat registered_service 9 (worker 1) 5 = (Inl NOT_FOUND, registered_service)"
    by blast
  from Heartbeat_incarnation_check [of registered_service "worker 0" 9 4] t
  have b: "Heartbeat registered_service 9 (worker 0) 4 = (Inl ABORTED, registered_service)"
    by simp
  from Heartbeat_incarnation_check [of registered_service "worker 0" 9 5] t
  have c: "Heartbeat registered_service 9 (worker 0) 5 =
      (Inr (), registered_service\<lparr>tasks := (tasks registered_service)(worker 0 \<mapsto>
         \<lparr>task_status = Registered, last_heartbeat = 3, incarnation = 5\<rparr>
           \<lparr>last_heartbeat := 9\<rparr>)\<rparr>)"
    by simp
  have r: "RegisterTask empty_service 1 (worker 0) 7 =
       (Inr 7, empty_service\<lparr>tasks := [worker 0 \<mapsto>
          \<lparr>task_status = Registered, last_heartbeat = 1, incarnation = 7\<rparr>]\<rparr>)"
    by (simp add: RegisterTask_def empty_service_def)
  from Heartbeat_incarnation_check [of empty_service "worker 0" 9 7 1 2 7] r
  have d: "fst (Heartbeat (snd (RegisterTask (empty_service\<lparr>tasks := [worker 0 \<mapsto>
          \<lparr>task_status = Registered, last_heartbeat = 1, incarnation = 7\<rparr>]\<rparr>)
                               2 (worker 0) 7)) 9 (worker 0) 7) = Inl ABORTED"
    by blast
  show ?thesis using n a t b c r d by simp
qed

end
